theory Spec2Isabelle
  imports Complex_Main
begin

section \<open>Home IoT Guardian: the sequence-anomaly engine\<close>

text \<open>
  A shallow embedding of \<^verbatim>\<open>models/preprocess.py\<close>, \<^verbatim>\<open>models/train_model.py\<close>,
  \<^verbatim>\<open>models/optimize_threshold.py\<close> and the detection path of \<^verbatim>\<open>app.py\<close>.

  Numbers: a Python float is a \<^typ>\<open>real\<close>; rounding and infinities are not modelled. A
  missing value (pandas' NaN) is modelled where the code can meet one: as the cell \<open>NaN\<close>
  of a table and as \<open>None\<close> in the \<^typ>\<open>real option\<close> arrays of the inference path.
  Every \<^verbatim>\<open>raise\<close> of the source, and every exception of a library call that the source
  relies on, is an \<open>Inl\<close> result.
\<close>

subsection \<open>Exceptions\<close>

text \<open>
  The exceptions that the modelled code raises itself or receives from a library, with their
  message (\<^verbatim>\<open>str(e)\<close>); \<open>OtherError\<close> stands for any other subclass of \<^verbatim>\<open>Exception\<close>.
\<close>

datatype py_exception =
    ValueError string
  | TypeError string
  | OtherError string

fun str_exception :: "py_exception \<Rightarrow> string" where
  "str_exception (ValueError m) = m"
| "str_exception (TypeError m) = m"
| "str_exception (OtherError m) = m"

subsection \<open>Formatting\<close>

text \<open>Python's \<^verbatim>\<open>str\<close> of a natural number.\<close>

fun str_nat :: "nat \<Rightarrow> string" where
  "str_nat n = (if n < 10 then [char_of (48 + n)]
                else str_nat (n div 10) @ [char_of (48 + n mod 10)])"

declare str_nat.simps [simp del]

subsection \<open>Windower (\<^verbatim>\<open>preprocess.create_sequences\<close>)\<close>

text \<open>
  \<^verbatim>\<open>
  if len(data) <= seq_length:
      return np.array([])
  sequences = []
  for i in range(len(data) - seq_length):
      seq = data[i:i + seq_length]
      sequences.append(seq)
  \<close>
  The rows are any values (a row of a matrix is a list of cells); the slice
  \<^verbatim>\<open>data[i:i + seq_length]\<close> is \<open>take seq_length (drop i data)\<close>. The window length is a
  natural number: every caller passes 10.
\<close>

definition py_slice :: "'a list \<Rightarrow> nat \<Rightarrow> nat \<Rightarrow> 'a list" where
  "py_slice xs i j = take (j - i) (drop i xs)"

definition create_sequences :: "'a list \<Rightarrow> nat \<Rightarrow> 'a list list" where
  "create_sequences data seq_length =
     (if length data \<le> seq_length then []
      else map (\<lambda>i. py_slice data i (i + seq_length)) [0 ..< length data - seq_length])"

text \<open>
  Label alignment in \<^verbatim>\<open>preprocess_pipeline\<close> (the branch \<^verbatim>\<open>create_seq\<close>):
  \<^verbatim>\<open>
  X = create_sequences(df_clean, seq_length)
  if y is not None and len(X) > 0:
      y = y[seq_length:].values
  \<close>
\<close>

definition align_labels :: "'a list list \<Rightarrow> 'b list \<Rightarrow> nat \<Rightarrow> 'b list" where
  "align_labels X y seq_length = (if length X > 0 then drop seq_length y else y)"

subsection \<open>Scorer (\<^verbatim>\<open>train_model.detect_anomalies\<close>, \<^verbatim>\<open>app.detect_anomalies\<close>)\<close>

text \<open>
  \<^verbatim>\<open>predictions = (errors > threshold).astype(int)\<close> in \<^verbatim>\<open>train_model.py\<close>; the number of
  anomalies is the number of ones.
\<close>

definition classify :: "real list \<Rightarrow> real \<Rightarrow> int list" where
  "classify errors threshold = map (\<lambda>e. if e > threshold then 1 else 0) errors"

definition anomaly_count :: "int list \<Rightarrow> nat" where
  "anomaly_count predictions = length (filter (\<lambda>p. p = 1) predictions)"

text \<open>
  \<^verbatim>\<open>anomaly_flags = errors > threshold; anomaly_indices = np.where(anomaly_flags)[0]\<close> in
  \<^verbatim>\<open>app.py\<close>. An error that is NaN (\<open>None\<close>) compares false.
\<close>

definition anomaly_flags :: "real option list \<Rightarrow> real \<Rightarrow> bool list" where
  "anomaly_flags errors threshold =
     map (\<lambda>e. case e of None \<Rightarrow> False | Some x \<Rightarrow> x > threshold) errors"

definition anomaly_indices :: "real option list \<Rightarrow> real \<Rightarrow> nat list" where
  "anomaly_indices errors threshold =
     filter (\<lambda>i. anomaly_flags errors threshold ! i) [0 ..< length errors]"

subsection \<open>Evaluator (\<^verbatim>\<open>train_model.evaluate_model\<close>)\<close>

text \<open>
  \<^verbatim>\<open>sklearn.metrics.confusion_matrix(y_true, y_pred)\<close> is called without \<^verbatim>\<open>labels\<close>: the
  classes are the sorted distinct values that occur in \<^verbatim>\<open>y_true\<close> or \<^verbatim>\<open>y_pred\<close>, and the
  matrix has one row (true class) and one column (predicted class) for each of them. Two
  arrays of different lengths are refused. Class labels are integers.
\<close>

definition unique_labels :: "int list \<Rightarrow> int list \<Rightarrow> int list" where
  "unique_labels y_true y_pred = sort (remdups (y_true @ y_pred))"

definition confusion_matrix :: "int list \<Rightarrow> int list \<Rightarrow> py_exception + nat list list" where
  "confusion_matrix y_true y_pred =
     (if length y_true \<noteq> length y_pred
      then Inl (ValueError ''Found input variables with inconsistent numbers of samples'')
      else let labels = unique_labels y_true y_pred
           in Inr (map (\<lambda>a. map (\<lambda>b. length (filter (\<lambda>tp. tp = (a, b)) (zip y_true y_pred)))
                                  labels) labels))"

record metrics =
  accuracy :: real
  precision :: real
  recall :: real
  f1_score :: real
  detection_rate :: real
  false_positive_rate :: real
  true_positives :: nat
  false_positives :: nat
  true_negatives :: nat
  false_negatives :: nat
  threshold :: real

text \<open>
  \<^verbatim>\<open>
  tn, fp, fn, tp = confusion_matrix(y_true, y_pred).ravel()
  accuracy = (tp + tn) / (tp + tn + fp + fn)
  precision = tp / (tp + fp) if (tp + fp) > 0 else 0
  recall = tp / (tp + fn) if (tp + fn) > 0 else 0
  f1_score = 2 * (precision * recall) / (precision + recall) if (precision + recall) > 0 else 0
  false_positive_rate = fp / (fp + tn) if (fp + tn) > 0 else 0
  \<close>
  The unpacking raises ValueError unless the flattened matrix has exactly four cells.
\<close>

definition evaluate_model ::
  "int list \<Rightarrow> int list \<Rightarrow> real list \<Rightarrow> real \<Rightarrow> py_exception + metrics" where
  "evaluate_model y_true y_pred errors thr =
     (case confusion_matrix y_true y_pred of
        Inl e \<Rightarrow> Inl e
      | Inr cm \<Rightarrow>
          (case concat cm of
             [tn, fp, fn, tp] \<Rightarrow>
               (let acc = real (tp + tn) / real (tp + tn + fp + fn);
                    prec = (if tp + fp > 0 then real tp / real (tp + fp) else 0);
                    rec = (if tp + fn > 0 then real tp / real (tp + fn) else 0);
                    f1 = (if prec + rec > 0 then 2 * (prec * rec) / (prec + rec) else 0);
                    fpr = (if fp + tn > 0 then real fp / real (fp + tn) else 0)
                in Inr \<lparr>accuracy = acc, precision = prec, recall = rec, f1_score = f1,
                        detection_rate = rec, false_positive_rate = fpr,
                        true_positives = tp, false_positives = fp,
                        true_negatives = tn, false_negatives = fn, threshold = thr\<rparr>)
           | a # b # c # d # e # rest \<Rightarrow> Inl (ValueError ''too many values to unpack (expected 4)'')
           | cells \<Rightarrow>
               Inl (ValueError (''not enough values to unpack (expected 4, got ''
                                @ str_nat (length cells) @ '')''))))"

subsection \<open>Threshold calibrator (\<^verbatim>\<open>optimize_threshold.find_optimal_threshold\<close>)\<close>

text \<open>
  \<^verbatim>\<open>np.mean\<close>, \<^verbatim>\<open>np.std\<close> (population standard deviation) and \<^verbatim>\<open>np.percentile\<close> (linear
  interpolation at the position (n - 1) * q / 100 of the sorted array) of a non-empty array,
  for an integer percentage q \<le> 100 (the source asks for 50 to 99).
\<close>

definition mean :: "real list \<Rightarrow> real" where
  "mean xs = sum_list xs / real (length xs)"

definition std :: "real list \<Rightarrow> real" where
  "std xs = sqrt (mean (map (\<lambda>x. (x - mean xs)\<^sup>2) xs))"

definition percentile :: "real list \<Rightarrow> nat \<Rightarrow> real" where
  "percentile xs q =
     (let s = sort xs; n = length xs; k = (n - 1) * q;
          lo = k div 100; hi = min (lo + 1) (n - 1);
          gamma = real (k mod 100) / 100
      in s ! lo + gamma * (s ! hi - s ! lo))"

text \<open>The dictionary \<^verbatim>\<open>strategies\<close>, in insertion order (the order of iteration).\<close>

definition strategies :: "real list \<Rightarrow> (string \<times> real) list" where
  "strategies train_errors =
     [(''mean + 3*std'', mean train_errors + 3 * std train_errors),
      (''mean + 2*std'', mean train_errors + 2 * std train_errors),
      (''mean + 1*std'', mean train_errors + 1 * std train_errors),
      (''mean'', mean train_errors),
      (''95th percentile'', percentile train_errors 95),
      (''90th percentile'', percentile train_errors 90),
      (''85th percentile'', percentile train_errors 85),
      (''80th percentile'', percentile train_errors 80),
      (''75th percentile'', percentile train_errors 75)]"

text \<open>
  The selection state of both loops: \<^verbatim>\<open>best_threshold\<close>, \<^verbatim>\<open>best_metrics\<close> and
  \<^verbatim>\<open>best_strategy\<close> are set together, or are all \<^verbatim>\<open>None\<close>.
\<close>

record selection =
  best_threshold :: real
  best_metrics :: metrics
  best_strategy :: string

text \<open>
  The first loop (lines 63 to 86):
  \<^verbatim>\<open>
  for strategy_name, threshold in strategies.items():
      test_pred = (test_errors > threshold).astype(int)
      metrics = evaluate_model(y_test, test_pred, test_errors, threshold)
      if metrics['detection_rate'] >= 0.85 and metrics['false_positive_rate'] <= target_fpr:
          if best_metrics is None or metrics['detection_rate'] > best_metrics['detection_rate']:
              best_threshold = threshold; best_metrics = metrics; best_strategy = strategy_name
  \<close>
\<close>

fun phase1_loop ::
  "real list \<Rightarrow> int list \<Rightarrow> real \<Rightarrow> (string \<times> real) list \<Rightarrow> selection option
   \<Rightarrow> py_exception + selection option" where
  "phase1_loop test_errors y_test target_fpr [] best = Inr best"
| "phase1_loop test_errors y_test target_fpr ((strategy_name, thr) # rest) best =
     (case evaluate_model y_test (classify test_errors thr) test_errors thr of
        Inl e \<Rightarrow> Inl e
      | Inr m \<Rightarrow>
          phase1_loop test_errors y_test target_fpr rest
            (if detection_rate m \<ge> 0.85 \<and> false_positive_rate m \<le> target_fpr
             then (if best = None \<or> detection_rate m > detection_rate (best_metrics (the best))
                   then Some \<lparr>best_threshold = thr, best_metrics = m, best_strategy = strategy_name\<rparr>
                   else best)
             else best))"

text \<open>
  The second loop (lines 95 to 110), over \<^verbatim>\<open>range(50, 100)\<close>, from \<^verbatim>\<open>best_score = -1\<close>
  (the name of a percentile is \<^verbatim>\<open>f"{percentile}th percentile"\<close>):
  \<^verbatim>\<open>
  threshold = np.percentile(train_errors, percentile)
  test_pred = (test_errors > threshold).astype(int)
  metrics = evaluate_model(y_test, test_pred, test_errors, threshold)
  fpr_penalty = metrics['false_positive_rate'] * (2 if metrics['false_positive_rate'] > target_fpr else 1)
  score = metrics['detection_rate'] - fpr_penalty
  if score > best_score:
      best_score = score; best_threshold = threshold; best_metrics = metrics
      best_strategy = f"{percentile}th percentile"
  \<close>
\<close>

definition balance_score :: "real \<Rightarrow> metrics \<Rightarrow> real" where
  "balance_score target_fpr m =
     detection_rate m
     - false_positive_rate m * (if false_positive_rate m > target_fpr then 2 else 1)"

fun phase2_loop ::
  "real list \<Rightarrow> real list \<Rightarrow> int list \<Rightarrow> real \<Rightarrow> nat list \<Rightarrow> real \<times> selection option
   \<Rightarrow> py_exception + real \<times> selection option" where
  "phase2_loop train_errors test_errors y_test target_fpr [] state = Inr state"
| "phase2_loop train_errors test_errors y_test target_fpr (p # rest) (best_score, best) =
     (let thr = percentile train_errors p
      in case evaluate_model y_test (classify test_errors thr) test_errors thr of
           Inl e \<Rightarrow> Inl e
         | Inr m \<Rightarrow>
             phase2_loop train_errors test_errors y_test target_fpr rest
               (if balance_score target_fpr m > best_score
                then (balance_score target_fpr m,
                      Some \<lparr>best_threshold = thr, best_metrics = m,
                            best_strategy = str_nat p @ ''th percentile''\<rparr>)
                else (best_score, best)))"

text \<open>
  The whole function, from the two error arrays that lines 39 and 40 obtain from the Keras
  model. \<^verbatim>\<open>model.predict\<close> refuses an empty batch with a ValueError, so neither array is
  empty when the loops are reached, and the statistics above are only taken of non-empty
  arrays. After the second loop the report line
  \<^verbatim>\<open>print(f"  Threshold: {best_threshold:.6f}")\<close> raises TypeError when \<^verbatim>\<open>best_threshold\<close>
  is still \<^verbatim>\<open>None\<close>.
\<close>

definition find_optimal_threshold ::
  "real list \<Rightarrow> real list \<Rightarrow> int list \<Rightarrow> real \<Rightarrow> py_exception + selection" where
  "find_optimal_threshold train_errors test_errors y_test target_fpr =
     (if train_errors = [] \<or> test_errors = []
      then Inl (ValueError ''Unexpected result of predict_function (Empty batch_outputs)'')
      else case phase1_loop test_errors y_test target_fpr (strategies train_errors) None of
             Inl e \<Rightarrow> Inl e
           | Inr (Some best) \<Rightarrow> Inr best
           | Inr None \<Rightarrow>
               (case phase2_loop train_errors test_errors y_test target_fpr [50 ..< 100] (- 1, None) of
                  Inl e \<Rightarrow> Inl e
                | Inr (best_score, None) \<Rightarrow>
                    Inl (TypeError ''unsupported format string passed to NoneType.__format__'')
                | Inr (best_score, Some best) \<Rightarrow> Inr best))"

text \<open>
  The requirement of the first loop, and the update of its selection by one evaluated
  candidate, named for the statements below.
\<close>

definition meets_requirements :: "real \<Rightarrow> metrics \<Rightarrow> bool" where
  "meets_requirements target_fpr m \<longleftrightarrow>
     detection_rate m \<ge> 0.85 \<and> false_positive_rate m \<le> target_fpr"

definition chosen :: "(string \<times> real) \<times> metrics \<Rightarrow> selection" where
  "chosen cm = \<lparr>best_threshold = snd (fst cm), best_metrics = snd cm, best_strategy = fst (fst cm)\<rparr>"

definition keep_best ::
  "real \<Rightarrow> selection option \<Rightarrow> (string \<times> real) \<times> metrics \<Rightarrow> selection option" where
  "keep_best target_fpr best cm =
     (if meets_requirements target_fpr (snd cm)
      then (if best = None \<or> detection_rate (snd cm) > detection_rate (best_metrics (the best))
            then Some (chosen cm)
            else best)
      else best)"

text \<open>
  What the first loop is to select from the evaluated candidates \<open>xs\<close>: nothing when none
  meets the requirement; otherwise a candidate that meets it, whose detection rate no
  candidate meeting it exceeds and no earlier candidate meeting it reaches.
\<close>

definition first_best ::
  "real \<Rightarrow> ((string \<times> real) \<times> metrics) list \<Rightarrow> selection option \<Rightarrow> bool" where
  "first_best tf xs best \<longleftrightarrow>
     (case best of
        None \<Rightarrow> \<forall>i < length xs. \<not> meets_requirements tf (snd (xs ! i))
      | Some b \<Rightarrow> \<exists>i < length xs.
           b = chosen (xs ! i)
         \<and> meets_requirements tf (snd (xs ! i))
         \<and> (\<forall>j < length xs. meets_requirements tf (snd (xs ! j))
                \<longrightarrow> detection_rate (snd (xs ! j)) \<le> detection_rate (snd (xs ! i)))
         \<and> (\<forall>j < i. meets_requirements tf (snd (xs ! j))
                \<longrightarrow> detection_rate (snd (xs ! j)) < detection_rate (snd (xs ! i))))"

subsection \<open>Tables (\<^verbatim>\<open>pandas.DataFrame\<close> as read by \<^verbatim>\<open>pd.read_csv\<close>)\<close>

text \<open>
  A cell is a field that parses as a number, any other non-empty text, or a missing
  value. A table has named columns and rows with one cell per column. A column has the
  dtype \<^verbatim>\<open>object\<close> when it holds some text.
\<close>

datatype cell = Num real | Str string | NaN

record frame =
  columns :: "string list"
  records :: "cell list list"

definition cell_at :: "string list \<Rightarrow> cell list \<Rightarrow> string \<Rightarrow> cell" where
  "cell_at cols r c = (case map_of (zip cols r) c of Some v \<Rightarrow> v | None \<Rightarrow> NaN)"

definition column :: "frame \<Rightarrow> string \<Rightarrow> cell list" where
  "column df c = map (\<lambda>r. cell_at (columns df) r c) (records df)"

definition drop_column :: "string \<Rightarrow> frame \<Rightarrow> frame" where
  "drop_column c df =
     \<lparr>columns = filter (\<lambda>n. n \<noteq> c) (columns df),
      records = map (\<lambda>r. map snd (filter (\<lambda>nv. fst nv \<noteq> c) (zip (columns df) r))) (records df)\<rparr>"

definition select_columns :: "string list \<Rightarrow> frame \<Rightarrow> frame" where
  "select_columns cs df =
     \<lparr>columns = cs, records = map (\<lambda>r. map (cell_at (columns df) r) cs) (records df)\<rparr>"

definition dropna :: "frame \<Rightarrow> frame" where
  "dropna df = df\<lparr>records := filter (\<lambda>r. NaN \<notin> set r) (records df)\<rparr>"

fun is_text :: "cell \<Rightarrow> bool" where
  "is_text (Str s) = True"
| "is_text c = False"

definition dtype_object :: "cell list \<Rightarrow> bool" where
  "dtype_object col = list_ex is_text col"

subsection \<open>Scaler (\<^verbatim>\<open>sklearn.preprocessing.StandardScaler\<close>)\<close>

text \<open>
  \<^verbatim>\<open>fit\<close> takes, for each feature, the mean and the population standard deviation of the
  values present (NaN is disregarded in fit and kept by transform); a standard deviation of
  0 is replaced by the scale 1 (\<open>own_scale\<close>). A feature with no value present has no
  parameters. The
  input is refused when it has no rows or holds text.
\<close>

type_synonym scaler = "(real \<times> real) option list"

definition column_values :: "real option list list \<Rightarrow> nat \<Rightarrow> real list" where
  "column_values X j = List.map_filter (\<lambda>r. r ! j) X"

definition own_scale :: "real list \<Rightarrow> real" where
  "own_scale vs = (if std vs = 0 then 1 else std vs)"

definition fit :: "real option list list \<Rightarrow> nat \<Rightarrow> scaler" where
  "fit X n_features =
     map (\<lambda>j. let vs = column_values X j
              in if vs = [] then None else Some (mean vs, own_scale vs))
         [0 ..< n_features]"

definition transform_cell :: "real option \<times> (real \<times> real) option \<Rightarrow> real option" where
  "transform_cell xp =
     (case xp of
        (Some x, Some (m, sd)) \<Rightarrow> Some ((x - m) / sd)
      | _ \<Rightarrow> None)"

definition transform :: "scaler \<Rightarrow> real option list list \<Rightarrow> real option list list" where
  "transform sc X = map (\<lambda>r. map transform_cell (zip r sc)) X"

fun cell_value :: "cell \<Rightarrow> real option" where
  "cell_value (Num x) = Some x"
| "cell_value c = None"

definition fit_transform ::
  "cell list list \<Rightarrow> nat \<Rightarrow> py_exception + real option list list \<times> scaler" where
  "fit_transform X n_features =
     (if X = [] then Inl (ValueError ''Found array with 0 sample(s)'')
      else if list_ex (list_ex is_text) X then Inl (ValueError ''could not convert string to float'')
      else let F = map (map cell_value) X; sc = fit F n_features
           in Inr (transform sc F, sc))"

subsection \<open>Preprocessor (\<^verbatim>\<open>preprocess.clean_data\<close>, \<^verbatim>\<open>preprocess.preprocess_pipeline\<close>)\<close>

text \<open>
  \<^verbatim>\<open>clean_data(df, numeric_cols, categorical_cols)\<close> with \<^verbatim>\<open>categorical_cols = None\<close>, as every
  caller in the repository passes it:
  \<^verbatim>\<open>
  df_clean = df.dropna()
  scaler = None
  if numeric_cols:
      numeric_cols_present = [col for col in numeric_cols if col in df_clean.columns]
      if numeric_cols_present:
          scaler = StandardScaler()
          df_clean[numeric_cols_present] = scaler.fit_transform(df_clean[numeric_cols_present])
  return df_clean, scaler, encoded_columns
  \<close>
\<close>

fun float_cell :: "real option \<Rightarrow> cell" where
  "float_cell (Some x) = Num x"
| "float_cell None = NaN"

definition assign_columns :: "string list \<Rightarrow> real option list list \<Rightarrow> frame \<Rightarrow> frame" where
  "assign_columns cs vals df =
     df\<lparr>records :=
          map (\<lambda>rv. map (\<lambda>nv. case map_of (zip cs (snd rv)) (fst nv) of
                                 Some x \<Rightarrow> float_cell x
                               | None \<Rightarrow> snd nv)
                        (zip (columns df) (fst rv)))
              (zip (records df) vals)\<rparr>"

definition clean_data ::
  "frame \<Rightarrow> string list \<Rightarrow> py_exception + frame \<times> scaler option \<times> string list" where
  "clean_data df numeric_cols =
     (let df_clean = dropna df;
          numeric_cols_present = filter (\<lambda>col. col \<in> set (columns df_clean)) numeric_cols
      in if numeric_cols_present \<noteq> []
         then (case fit_transform (records (select_columns numeric_cols_present df_clean))
                                  (length numeric_cols_present) of
                 Inl e \<Rightarrow> Inl e
               | Inr (vals, sc) \<Rightarrow>
                   Inr (assign_columns numeric_cols_present vals df_clean, Some sc, []))
         else Inr (df_clean, None, []))"

text \<open>
  Label encoding in \<^verbatim>\<open>preprocess_pipeline\<close>:
  \<^verbatim>\<open>
  if label_col and label_col in df.columns:
      y = df[label_col].copy()
      if y.dtype == 'object':
          y = y.map({'benign': 0, 'malicious': 1})
      df = df.drop(label_col, axis=1)
  \<close>
  \<^verbatim>\<open>Series.map\<close> with a dictionary gives NaN for every value that is not a key.
\<close>

fun map_label :: "cell \<Rightarrow> cell" where
  "map_label (Str s) =
     (if s = ''benign'' then Num 0 else if s = ''malicious'' then Num 1 else NaN)"
| "map_label c = NaN"

definition encode_labels :: "cell list \<Rightarrow> cell list" where
  "encode_labels y = (if dtype_object y then map map_label y else y)"

definition separate_labels :: "frame \<Rightarrow> string option \<Rightarrow> cell list option \<times> frame" where
  "separate_labels df label_col =
     (case label_col of
        None \<Rightarrow> (None, df)
      | Some l \<Rightarrow>
          if l \<noteq> [] \<and> l \<in> set (columns df)
          then (Some (encode_labels (column df l)), drop_column l df)
          else (None, df))"

text \<open>
  \<^verbatim>\<open>sklearn.model_selection.train_test_split(X, y, test_size=0.2, random_state=42)\<close>: the
  samples are shuffled by the permutation that the seeded generator draws for their number
  (a parameter here), the first ceil(0.2 n) shuffled samples are the test set, the rest the
  training set; arrays of different lengths and an empty training set are refused.
\<close>

definition train_test_split ::
  "(nat \<Rightarrow> nat list) \<Rightarrow> 'a list \<Rightarrow> py_exception + 'a list \<times> 'a list" where
  "train_test_split permutation X =
     (let n = length X; n_test = (n + 4) div 5; n_train = n - n_test; ix = permutation n
      in if n_train = 0 then Inl (ValueError ''the resulting train set will be empty'')
         else Inr (map (\<lambda>i. X ! i) (take n_train (drop n_test ix)),
                   map (\<lambda>i. X ! i) (take n_test ix)))"

datatype sample = Row "cell list" | Window "cell list list"

record pipeline_result =
  X_train :: "sample list"
  X_test :: "sample list"
  y_train :: "cell list option"
  y_test :: "cell list option"
  fitted_scaler :: "scaler option"
  encoded_columns :: "string list"
  feature_names :: "string list"

text \<open>
  \<^verbatim>\<open>preprocess_pipeline\<close>, from the table that \<^verbatim>\<open>load_csv\<close> returns, with
  \<^verbatim>\<open>categorical_cols = None\<close>. The samples and labels before the split are \<open>prepare\<close>.
\<close>

definition prepare ::
  "frame \<Rightarrow> string list \<Rightarrow> string option \<Rightarrow> bool \<Rightarrow> nat
   \<Rightarrow> py_exception + sample list \<times> cell list option \<times> frame \<times> scaler option" where
  "prepare df0 numeric_cols label_col create_seq seq_length =
     (case separate_labels df0 label_col of
        (y, df) \<Rightarrow>
          (case clean_data df numeric_cols of
             Inl e \<Rightarrow> Inl e
           | Inr (df_clean, sc, encoded_cols) \<Rightarrow>
               if create_seq
               then (let X = create_sequences (records df_clean) seq_length
                     in Inr (map Window X, map_option (\<lambda>y. align_labels X y seq_length) y,
                             df_clean, sc))
               else Inr (map Row (records df_clean), y, df_clean, sc)))"

definition preprocess_pipeline ::
  "(nat \<Rightarrow> nat list) \<Rightarrow> frame \<Rightarrow> string list \<Rightarrow> string option \<Rightarrow> bool \<Rightarrow> nat
   \<Rightarrow> py_exception + pipeline_result" where
  "preprocess_pipeline permutation df0 numeric_cols label_col create_seq seq_length =
     (case prepare df0 numeric_cols label_col create_seq seq_length of
        Inl e \<Rightarrow> Inl e
      | Inr (X, y, df_clean, sc) \<Rightarrow>
          (case y of
             Some labels \<Rightarrow>
               if length X \<noteq> length labels
               then Inl (ValueError ''Found input variables with inconsistent numbers of samples'')
               else (case (train_test_split permutation X, train_test_split permutation labels) of
                       (Inr (Xtr, Xte), Inr (ytr, yte)) \<Rightarrow>
                         Inr \<lparr>X_train = Xtr, X_test = Xte, y_train = Some ytr, y_test = Some yte,
                              fitted_scaler = sc, encoded_columns = [],
                              feature_names = columns df_clean\<rparr>
                     | (Inl e, _) \<Rightarrow> Inl e
                     | (_, Inl e) \<Rightarrow> Inl e)
           | None \<Rightarrow>
               (case train_test_split permutation X of
                  Inl e \<Rightarrow> Inl e
                | Inr (Xtr, Xte) \<Rightarrow>
                    Inr \<lparr>X_train = Xtr, X_test = Xte, y_train = None, y_test = None,
                         fitted_scaler = sc, encoded_columns = [],
                         feature_names = columns df_clean\<rparr>)))"

subsection \<open>Inference path (\<^verbatim>\<open>app.preprocess_for_detection\<close>, \<^verbatim>\<open>app.detect_anomalies\<close>)\<close>

definition expected_features :: "string list" where
  "expected_features = [''orig_pkts'', ''resp_pkts'', ''orig_bytes'', ''resp_bytes'']"

text \<open>Python's \<^verbatim>\<open>repr\<close> of a list of column names (names without quotes or escapes).\<close>

fun join_comma :: "string list \<Rightarrow> string" where
  "join_comma [] = []"
| "join_comma [x] = x"
| "join_comma (x # y # ys) = x @ '', '' @ join_comma (y # ys)"

definition py_repr_list :: "string list \<Rightarrow> string" where
  "py_repr_list xs = ''['' @ join_comma (map (\<lambda>x. [CHR 0x27] @ x @ [CHR 0x27]) xs) @ '']''"

text \<open>
  \<^verbatim>\<open>preprocess_for_detection(file_path)\<close>, from the outcome of \<^verbatim>\<open>pd.read_csv(file_path)\<close>:
  \<^verbatim>\<open>
  if 'ts' in df.columns: df = df.drop('ts', axis=1)
  if 'label' in df.columns: df = df.drop('label', axis=1)
  missing_features = [f for f in expected_features if f not in df.columns]
  if missing_features:
      raise ValueError(f"Missing required features: {missing_features}")
  df = df[expected_features]
  scaler = StandardScaler()
  df_normalized = pd.DataFrame(scaler.fit_transform(df), columns=df.columns)
  seq_length = 10
  if len(df_normalized) <= seq_length:
      raise ValueError(f"File must have more than {seq_length} rows for sequence analysis")
  sequences = [df_normalized.iloc[i:i+seq_length].values for i in range(len(df_normalized) - seq_length)]
  return sequences, original_df, expected_features
  \<close>
\<close>

definition strip_ts_label :: "frame \<Rightarrow> frame" where
  "strip_ts_label df0 =
     (let df = (if ''ts'' \<in> set (columns df0) then drop_column ''ts'' df0 else df0)
      in if ''label'' \<in> set (columns df) then drop_column ''label'' df else df)"

definition preprocess_for_detection ::
  "py_exception + frame
   \<Rightarrow> py_exception + real option list list list \<times> frame \<times> string list" where
  "preprocess_for_detection csv =
     (case csv of
        Inl e \<Rightarrow> Inl e
      | Inr original_df \<Rightarrow>
          (let df = strip_ts_label original_df;
               missing_features = filter (\<lambda>f. f \<notin> set (columns df)) expected_features
           in if missing_features \<noteq> []
              then Inl (ValueError (''Missing required features: '' @ py_repr_list missing_features))
              else (case fit_transform (records (select_columns expected_features df))
                                       (length expected_features) of
                      Inl e \<Rightarrow> Inl e
                    | Inr (df_normalized, sc) \<Rightarrow>
                        if length df_normalized \<le> 10
                        then Inl (ValueError ''File must have more than 10 rows for sequence analysis'')
                        else Inr (map (\<lambda>i. py_slice df_normalized i (i + 10))
                                      [0 ..< length df_normalized - 10],
                                  original_df, expected_features))))"

text \<open>
  The process-wide state of \<^verbatim>\<open>app.py\<close> and the files that \<^verbatim>\<open>load_ml_model\<close> reads. A
  loaded Keras model is its \<^verbatim>\<open>predict\<close>, which may raise. A file is missing, or its loading
  (\<^verbatim>\<open>load_model\<close>, \<^verbatim>\<open>float(f.read().strip())\<close>) raises, or it yields a value.
\<close>

type_synonym keras_model = "real option list list list \<Rightarrow> py_exception + real option list list list"

datatype 'a stored = Missing | Unreadable py_exception | Content 'a

record model_files =
  lstm_model_keras :: "keras_model stored"
  threshold_optimized_txt :: "real stored"
  threshold_txt :: "real stored"

record app_state =
  MODEL :: "keras_model option"
  THRESHOLD :: "real option"

definition load_ml_model ::
  "model_files \<Rightarrow> app_state \<Rightarrow> (py_exception + keras_model option \<times> real) \<times> app_state" where
  "load_ml_model files st =
     (let loaded =
            (if MODEL st = None
             then (case lstm_model_keras files of
                     Missing \<Rightarrow> Inr st
                   | Unreadable e \<Rightarrow> Inl e
                   | Content m \<Rightarrow> Inr (st\<lparr>MODEL := Some m\<rparr>))
             else Inr st)
      in case loaded of
           Inl e \<Rightarrow> (Inl e, st)
         | Inr st1 \<Rightarrow>
             (case THRESHOLD st1 of
                Some t \<Rightarrow> (Inr (MODEL st1, t), st1)
              | None \<Rightarrow>
                  (case (if threshold_optimized_txt files = Missing then threshold_txt files
                         else threshold_optimized_txt files) of
                     Missing \<Rightarrow> (Inr (MODEL st1, 0.12), st1\<lparr>THRESHOLD := Some 0.12\<rparr>)
                   | Unreadable e \<Rightarrow> (Inl e, st1)
                   | Content t \<Rightarrow> (Inr (MODEL st1, t), st1\<lparr>THRESHOLD := Some t\<rparr>))))"

text \<open>
  \<^verbatim>\<open>errors = np.mean(np.square(sequences - reconstructed), axis=(1, 2))\<close>: one mean squared
  difference per window, NaN when a difference is NaN. The reconstruction of a Keras
  autoencoder has the shape of its input; arrays of different shapes are refused.
\<close>

definition square_diff :: "real option \<times> real option \<Rightarrow> real option" where
  "square_diff ab = (case ab of (Some a, Some b) \<Rightarrow> Some ((a - b)\<^sup>2) | _ \<Rightarrow> None)"

definition window_error :: "real option list list \<times> real option list list \<Rightarrow> real option" where
  "window_error wr =
     map_option mean
       (those (concat (map (\<lambda>rows2. map square_diff (zip (fst rows2) (snd rows2)))
                           (zip (fst wr) (snd wr)))))"

definition same_shape :: "'a list list list \<Rightarrow> 'b list list list \<Rightarrow> bool" where
  "same_shape A B \<longleftrightarrow> map (map length) A = map (map length) B"

definition reconstruction_errors ::
  "real option list list list \<Rightarrow> real option list list list \<Rightarrow> py_exception + real option list" where
  "reconstruction_errors sequences reconstructed =
     (if same_shape sequences reconstructed
      then Inr (map window_error (zip sequences reconstructed))
      else Inl (ValueError ''operands could not be broadcast together''))"

text \<open>
  The result dictionary and its \<^verbatim>\<open>details\<close> entries. \<^verbatim>\<open>rows\<close> is the pair that the source
  formats as \<^verbatim>\<open>f"{row_start}-{row_end}"\<close>; \<^verbatim>\<open>sample_data\<close> holds the cells of the row that the
  source formats with \<^verbatim>\<open>str\<close>.
\<close>

record detail =
  sequence_id :: nat
  row_range :: "nat \<times> nat"
  error_score :: "real option"
  threshold_used :: real
  severity :: string
  sample_data :: "(string \<times> cell) list option"

record detection =
  error :: "string option"
  anomalies_count :: nat
  details :: "detail list"
  total_samples :: nat
  threshold_applied :: "real option"
  percentage :: "real option"

definition make_detail :: "frame \<Rightarrow> real option list \<Rightarrow> real \<Rightarrow> nat \<Rightarrow> detail" where
  "make_detail original_df errors thr idx =
     \<lparr>sequence_id = idx,
      row_range = (idx, idx + 10),
      error_score = errors ! idx,
      threshold_used = thr,
      severity = (if (case errors ! idx of Some x \<Rightarrow> x > thr * 1.5 | None \<Rightarrow> False)
                  then ''High'' else ''Medium''),
      sample_data = (if idx < length (records original_df)
                     then Some (zip (columns original_df) (records original_df ! idx))
                     else None)\<rparr>"

definition failure :: "string \<Rightarrow> detection" where
  "failure msg = \<lparr>error = Some msg, anomalies_count = 0, details = [], total_samples = 0,
                  threshold_applied = None, percentage = None\<rparr>"

text \<open>
  The body of the \<^verbatim>\<open>try\<close> block of \<^verbatim>\<open>detect_anomalies\<close>: \<open>Inl\<close> is an exception raised in
  it, \<open>Inr\<close> a dictionary it returns. \<^verbatim>\<open>send_email_alert\<close> catches every \<^verbatim>\<open>Exception\<close> of
  its own body and returns nothing, so it adds no branch.
\<close>

definition detect_anomalies_try ::
  "model_files \<Rightarrow> app_state \<Rightarrow> py_exception + frame \<Rightarrow> (py_exception + detection) \<times> app_state" where
  "detect_anomalies_try files st csv =
     (case load_ml_model files st of
        (Inl e, st1) \<Rightarrow> (Inl e, st1)
      | (Inr (None, thr), st1) \<Rightarrow>
          (Inr (failure ''Model not loaded. Please train the model first.''), st1)
      | (Inr (Some model, thr), st1) \<Rightarrow>
          (case preprocess_for_detection csv of
             Inl e \<Rightarrow> (Inl e, st1)
           | Inr (sequences, original_df, features) \<Rightarrow>
               (case model sequences of
                  Inl e \<Rightarrow> (Inl e, st1)
                | Inr reconstructed \<Rightarrow>
                    (case reconstruction_errors sequences reconstructed of
                       Inl e \<Rightarrow> (Inl e, st1)
                     | Inr errors \<Rightarrow>
                         (let ixs = anomaly_indices errors thr
                          in (Inr \<lparr>error = None,
                                   anomalies_count = length ixs,
                                   details = map (make_detail original_df errors thr) (take 100 ixs),
                                   total_samples = length sequences,
                                   threshold_applied = Some thr,
                                   percentage = Some (if length sequences > 0
                                       then real (length ixs) / real (length sequences) * 100
                                       else 0)\<rparr>, st1))))))"

text \<open>
  \<^verbatim>\<open>
  try: ...
  except Exception as e:
      return {'error': str(e), 'anomalies_count': 0, 'details': [], 'total_samples': 0}
  \<close>
\<close>

definition detect_anomalies ::
  "model_files \<Rightarrow> app_state \<Rightarrow> py_exception + frame \<Rightarrow> detection \<times> app_state" where
  "detect_anomalies files st csv =
     (case detect_anomalies_try files st csv of
        (Inl e, st1) \<Rightarrow> (failure (str_exception e), st1)
      | (Inr result, st1) \<Rightarrow> (result, st1))"

text \<open>
  The same for the second loop: the update of its state by one evaluated percentile, and
  what it is to select from the evaluated percentiles \<open>xs\<close>: nothing, with the score still
  -1, when no score exceeds -1; otherwise a percentile of maximal score that no earlier
  percentile reaches.
\<close>

definition percentile_choice :: "real list \<Rightarrow> nat \<times> metrics \<Rightarrow> selection" where
  "percentile_choice train_errors pm =
     \<lparr>best_threshold = percentile train_errors (fst pm), best_metrics = snd pm,
      best_strategy = str_nat (fst pm) @ ''th percentile''\<rparr>"

definition keep_balance ::
  "real \<Rightarrow> real list \<Rightarrow> real \<times> selection option \<Rightarrow> nat \<times> metrics \<Rightarrow> real \<times> selection option" where
  "keep_balance target_fpr train_errors state pm =
     (if balance_score target_fpr (snd pm) > fst state
      then (balance_score target_fpr (snd pm), Some (percentile_choice train_errors pm))
      else state)"

definition first_balance ::
  "real \<Rightarrow> real list \<Rightarrow> (nat \<times> metrics) list \<Rightarrow> real \<times> selection option \<Rightarrow> bool" where
  "first_balance tf tr xs state \<longleftrightarrow>
     (case state of
        (best_score, None) \<Rightarrow>
          best_score = - 1 \<and> (\<forall>i < length xs. balance_score tf (snd (xs ! i)) \<le> - 1)
      | (best_score, Some b) \<Rightarrow> \<exists>i < length xs.
           b = percentile_choice tr (xs ! i)
         \<and> best_score = balance_score tf (snd (xs ! i))
         \<and> best_score > - 1
         \<and> (\<forall>j < length xs. balance_score tf (snd (xs ! j)) \<le> balance_score tf (snd (xs ! i)))
         \<and> (\<forall>j < i. balance_score tf (snd (xs ! j)) < balance_score tf (snd (xs ! i))))"

section \<open>Properties\<close>

subsection \<open>Windows and their labels\<close>

lemma length_create_sequences:
  "length (create_sequences data L) = length data - L"
  by (simp add: create_sequences_def)

lemma nth_create_sequences:
  "i < length data - L \<Longrightarrow> create_sequences data L ! i = take L (drop i data)"
  by (auto simp: create_sequences_def py_slice_def)

text \<open>
  C4. For a matrix of N rows with F features each and a window length L > 0: when N > L
  there are exactly N - L windows, window i is rows[i : i+L], and every window has L rows
  of F features; when N \<le> L the result is the empty list of windows (the function has no
  failing branch).
\<close>

theorem create_sequences_windows:
  fixes rows :: "'a list list"
  assumes "L > 0" and "\<forall>r \<in> set rows. length r = F"
  shows "(length rows > L \<longrightarrow>
            length (create_sequences rows L) = length rows - L
          \<and> (\<forall>i < length rows - L.
                create_sequences rows L ! i = take L (drop i rows)
              \<and> length (create_sequences rows L ! i) = L
              \<and> (\<forall>r \<in> set (create_sequences rows L ! i). length r = F)))
       \<and> (length rows \<le> L \<longrightarrow> create_sequences rows L = [])"
proof (intro conjI impI allI)
  assume "length rows > L"
  show "length (create_sequences rows L) = length rows - L"
    by (rule length_create_sequences)
next
  fix i assume big: "length rows > L" and i: "i < length rows - L"
  have w: "create_sequences rows L ! i = take L (drop i rows)"
    using i by (rule nth_create_sequences)
  show "create_sequences rows L ! i = take L (drop i rows)" by (rule w)
  show "length (create_sequences rows L ! i) = L"
    using i by (simp add: w)
  show "\<forall>r \<in> set (create_sequences rows L ! i). length r = F"
  proof
    fix r assume "r \<in> set (create_sequences rows L ! i)"
    then have "r \<in> set rows"
      unfolding w by (meson in_set_dropD in_set_takeD)
    then show "length r = F" using assms(2) by blast
  qed
next
  assume "length rows \<le> L"
  then show "create_sequences rows L = []"
    by (simp add: create_sequences_def)
qed

theorem create_sequences_windows_witness:
  "length (create_sequences [[1, 2], [3, 4], [5, 6], [7, 8 :: int]] 2) = 2
   \<and> create_sequences [[1, 2], [3, 4], [5, 6], [7, 8 :: int]] 2 ! 1 = [[3, 4], [5, 6]]
   \<and> create_sequences [[1, 2], [3, 4 :: int]] 2 = []"
proof -
  have L: "(2::nat) > 0" by simp
  have rows: "\<forall>r \<in> set [[1, 2], [3, 4], [5, 6], [7, 8 :: int]]. length r = 2" by simp
  have rows2: "\<forall>r \<in> set [[1, 2], [3, 4 :: int]]. length r = 2" by simp
  note big = create_sequences_windows [OF L rows]
  note small = create_sequences_windows [OF L rows2]
  have n: "length (create_sequences [[1, 2], [3, 4], [5, 6], [7, 8 :: int]] 2) = 2"
    using big by simp
  have "create_sequences [[1, 2], [3, 4], [5, 6], [7, 8 :: int]] 2 ! 1
        = take 2 (drop 1 [[1, 2], [3, 4], [5, 6], [7, 8 :: int]])"
    using big by auto
  then have w: "create_sequences [[1, 2], [3, 4], [5, 6], [7, 8 :: int]] 2 ! 1 = [[3, 4], [5, 6]]"
    by simp
  have e: "create_sequences [[1, 2], [3, 4 :: int]] 2 = []"
    using small by simp
  show ?thesis using n w e by simp
qed

text \<open>
  C5. With one label per row and window length L, the label attached to window i (for
  every valid window index i) is the label of row i + L, the row that follows the window
  rows[i : i+L]; the aligned labels are as many as the windows.
\<close>

theorem window_label_is_next_row:
  assumes "length y = length rows" and "i < length rows - L"
  shows "create_sequences rows L ! i = take L (drop i rows)
       \<and> align_labels (create_sequences rows L) y L ! i = y ! (i + L)
       \<and> length (align_labels (create_sequences rows L) y L) = length (create_sequences rows L)"
proof -
  have n: "length (create_sequences rows L) = length rows - L"
    by (rule length_create_sequences)
  then have pos: "length (create_sequences rows L) > 0"
    using assms(2) by simp
  have lab: "align_labels (create_sequences rows L) y L = drop L y"
    using pos by (simp add: align_labels_def)
  have "i + L < length y" using assms by simp
  then have "drop L y ! i = y ! (i + L)"
    by (simp add: add.commute)
  moreover have "create_sequences rows L ! i = take L (drop i rows)"
    using assms(2) by (rule nth_create_sequences)
  moreover have "length (drop L y) = length (create_sequences rows L)"
    using assms(1) n by simp
  ultimately show ?thesis by (simp add: lab)
qed

text \<open>
  Rows a, b, c, d with labels 0, 0, 1, 0 and L = 2: window 0 is [a, b], whose last row
  has label 0, and the label attached to it is 1, the label of row 2.
\<close>

theorem window_label_is_next_row_witness:
  "create_sequences ''abcd'' 2 ! 0 = ''ab''
   \<and> align_labels (create_sequences ''abcd'' 2) [0, 0, 1, 0 :: int] 2 ! 0 = 1
   \<and> [0, 0, 1, 0 :: int] ! (0 + 2 - 1) = 0"
proof -
  have len: "length [0, 0, 1, 0 :: int] = length ''abcd''" by simp
  have i: "(0::nat) < length ''abcd'' - 2" by simp
  show ?thesis using window_label_is_next_row [OF len i] by simp
qed

text \<open>
  In the pipeline the rows are those of the cleaned table and the labels the encoded label
  column of the table as loaded.
\<close>

lemma prepare_windows_and_labels:
  assumes "label \<noteq> []" and "label \<in> set (columns df)"
    and "clean_data (drop_column label df) numeric_cols = Inr (df_clean, sc, enc)"
  shows "prepare df numeric_cols (Some label) True L
       = Inr (map Window (create_sequences (records df_clean) L),
              Some (align_labels (create_sequences (records df_clean) L)
                      (encode_labels (column df label)) L),
              df_clean, sc)"
  using assms by (simp add: prepare_def separate_labels_def Let_def)

subsection \<open>Classification\<close>

lemma length_filter_mono:
  "(\<And>x. x \<in> set xs \<Longrightarrow> P x \<Longrightarrow> Q x) \<Longrightarrow> length (filter P xs) \<le> length (filter Q xs)"
  by (induction xs) auto

lemma anomaly_count_classify:
  "anomaly_count (classify errors t) = length (filter (\<lambda>e. e > t) errors)"
  by (induction errors) (auto simp: anomaly_count_def classify_def)

text \<open>
  C9. For a fixed vector of reconstruction errors and thresholds t1 \<le> t2, the number of
  windows classified anomalous (error > threshold) under t2 is at most the number under t1:
  for the predictions of \<^verbatim>\<open>train_model.detect_anomalies\<close> and for the anomaly indices of
  \<^verbatim>\<open>app.detect_anomalies\<close>.
\<close>

theorem classification_monotone:
  assumes "t1 \<le> t2"
  shows "anomaly_count (classify errors t2) \<le> anomaly_count (classify errors t1)
       \<and> length (anomaly_indices errs t2) \<le> length (anomaly_indices errs t1)"
proof
  show "anomaly_count (classify errors t2) \<le> anomaly_count (classify errors t1)"
    unfolding anomaly_count_classify
    using assms by (intro length_filter_mono) simp
next
  have "\<And>i. i \<in> set [0 ..< length errs] \<Longrightarrow> anomaly_flags errs t2 ! i
           \<Longrightarrow> anomaly_flags errs t1 ! i"
    using assms by (auto simp: anomaly_flags_def split: option.splits)
  then show "length (anomaly_indices errs t2) \<le> length (anomaly_indices errs t1)"
    unfolding anomaly_indices_def by (rule length_filter_mono)
qed

theorem classification_monotone_witness:
  "anomaly_count (classify [1, 5, 9] 6) \<le> anomaly_count (classify [1, 5, 9] 2)
   \<and> anomaly_count (classify [1, 5, 9] 6) = 1
   \<and> anomaly_count (classify [1, 5, 9] 2) = 2
   \<and> length (anomaly_indices [Some 1, None, Some 9] 6) \<le> length (anomaly_indices [Some 1, None, Some 9] 2)"
proof -
  have le: "(2::real) \<le> 6" by simp
  have "anomaly_count (classify [1, 5, 9] 6) = 1"
    by (simp add: anomaly_count_def classify_def)
  moreover have "anomaly_count (classify [1, 5, 9] 2) = 2"
    by (simp add: anomaly_count_def classify_def)
  ultimately show ?thesis
    using classification_monotone [OF le, of "[1, 5, 9]" "[Some 1, None, Some 9]"] by simp
qed

subsection \<open>Evaluation\<close>

lemma str_nat_1: "str_nat (Suc 0) = ''1''"
  by code_simp

text \<open>
  C6. Two windows, both benign and both classified normal: a single class occurs, the
  confusion matrix is the 1 x 1 matrix [[2]], and unpacking it into
  \<^verbatim>\<open>tn, fp, fn, tp\<close> raises ValueError, where the claim promises metrics without an exception.
\<close>

theorem evaluate_model_single_class:
  "classify [1/10, 2/10] (1/2) = [0, 0]
   \<and> evaluate_model [0, 0] (classify [1/10, 2/10] (1/2)) [1/10, 2/10] (1/2)
       = Inl (ValueError ''not enough values to unpack (expected 4, got 1)'')"
  by (simp add: evaluate_model_def classify_def confusion_matrix_def unique_labels_def
      str_nat_1)

text \<open>
  When \<^verbatim>\<open>evaluate_model\<close> returns, the accuracy is (tp + tn) / (tp + tn + fp + fn), every
  guarded rate with a zero denominator is 0, and the detection rate is the recall. It
  returns exactly when the two arrays have the same length and hold two classes between
  them.
\<close>

lemma evaluate_model_Inr:
  assumes "evaluate_model y_true y_pred errors thr = Inr m"
  obtains cm tn fp fn tp where
    "confusion_matrix y_true y_pred = Inr cm" "concat cm = [tn, fp, fn, tp]"
    "m = \<lparr>accuracy = real (tp + tn) / real (tp + tn + fp + fn),
          precision = (if tp + fp > 0 then real tp / real (tp + fp) else 0),
          recall = (if tp + fn > 0 then real tp / real (tp + fn) else 0),
          f1_score = (if (if tp + fp > 0 then real tp / real (tp + fp) else 0)
                         + (if tp + fn > 0 then real tp / real (tp + fn) else 0) > 0
                      then 2 * ((if tp + fp > 0 then real tp / real (tp + fp) else 0)
                                * (if tp + fn > 0 then real tp / real (tp + fn) else 0))
                           / ((if tp + fp > 0 then real tp / real (tp + fp) else 0)
                              + (if tp + fn > 0 then real tp / real (tp + fn) else 0))
                      else 0),
          detection_rate = (if tp + fn > 0 then real tp / real (tp + fn) else 0),
          false_positive_rate = (if fp + tn > 0 then real fp / real (fp + tn) else 0),
          true_positives = tp, false_positives = fp,
          true_negatives = tn, false_negatives = fn, threshold = thr\<rparr>"
  using assms unfolding evaluate_model_def Let_def
  by (auto split: sum.splits list.splits)

lemma evaluate_model_rates:
  assumes "evaluate_model y_true y_pred errors thr = Inr m"
  shows "accuracy m = real (true_positives m + true_negatives m)
            / real (true_positives m + true_negatives m + false_positives m + false_negatives m)"
    and "true_positives m + false_positives m = 0 \<Longrightarrow> precision m = 0"
    and "true_positives m + false_negatives m = 0 \<Longrightarrow> recall m = 0"
    and "precision m + recall m = 0 \<Longrightarrow> f1_score m = 0"
    and "false_positives m + true_negatives m = 0 \<Longrightarrow> false_positive_rate m = 0"
    and "detection_rate m = recall m"
  using assms by (auto elim!: evaluate_model_Inr)

lemma concat_square_length:
  "length (concat (map (\<lambda>a. map (f a) ls) ls)) = length ls * length ls"
  by (simp add: length_concat comp_def sum_list_triv)

lemma evaluate_model_returns_iff:
  "(\<exists>m. evaluate_model y_true y_pred errors thr = Inr m)
   \<longleftrightarrow> length y_true = length y_pred \<and> length (unique_labels y_true y_pred) = 2"
proof -
  let ?ls = "unique_labels y_true y_pred"
  let ?cm = "map (\<lambda>a. map (\<lambda>b. length (filter (\<lambda>tp. tp = (a, b)) (zip y_true y_pred))) ?ls) ?ls"
  have len: "length (concat ?cm) = length ?ls * length ?ls"
    by (rule concat_square_length)
  have four: "length ?ls * length ?ls = 4 \<longleftrightarrow> length ?ls = 2"
  proof
    assume a: "length ?ls * length ?ls = 4"
    have "length ?ls < 3"
    proof (rule ccontr)
      assume "\<not> length ?ls < 3"
      then have "3 * 3 \<le> length ?ls * length ?ls" by (intro mult_le_mono) simp_all
      then show False using a by simp
    qed
    then consider "length ?ls = 0" | "length ?ls = 1" | "length ?ls = 2" by linarith
    then show "length ?ls = 2" using a by cases simp_all
  qed simp
  have ret: "(\<exists>m. (case concat ?cm of
             [tn, fp, fn, tp] \<Rightarrow> Inr (g tn fp fn tp)
           | a # b # c # d # e # rest \<Rightarrow> Inl x
           | _ \<Rightarrow> Inl y) = Inr m) \<longleftrightarrow> length (concat ?cm) = 4" for g :: "nat \<Rightarrow> nat \<Rightarrow> nat \<Rightarrow> nat \<Rightarrow> metrics" and x y :: py_exception
    by (auto split: list.splits)
  show ?thesis
    unfolding evaluate_model_def confusion_matrix_def Let_def
    using ret len four by (auto split: list.splits)
qed

lemma count_pairs_two_classes:
  assumes "a \<noteq> b" and "\<forall>tp \<in> set z. fst tp \<in> {a, b} \<and> snd tp \<in> {a, b}"
  shows "length (filter (\<lambda>tp. tp = (a, a)) z) + length (filter (\<lambda>tp. tp = (a, b)) z)
       + length (filter (\<lambda>tp. tp = (b, a)) z) + length (filter (\<lambda>tp. tp = (b, b)) z)
       = length z"
  using assms by (induction z) auto

text \<open>
  The denominator of the accuracy is the number of samples and is positive whenever the
  unpacking succeeds, so the unguarded division never divides by zero.
\<close>

lemma evaluate_model_counts:
  assumes "evaluate_model y_true y_pred errors thr = Inr m"
  shows "true_positives m + true_negatives m + false_positives m + false_negatives m
           = length y_true"
    and "length y_true > 0"
proof -
  from assms obtain cm tn fp fn tp where
    cm: "confusion_matrix y_true y_pred = Inr cm" and cells: "concat cm = [tn, fp, fn, tp]"
    and m: "true_positives m = tp" "true_negatives m = tn" "false_positives m = fp"
           "false_negatives m = fn"
    by (auto elim!: evaluate_model_Inr)
  have len: "length y_true = length y_pred"
    using cm by (auto simp: confusion_matrix_def split: if_splits)
  have "\<exists>m. evaluate_model y_true y_pred errors thr = Inr m" using assms by blast
  then have two: "length (unique_labels y_true y_pred) = 2"
    by (simp add: evaluate_model_returns_iff)
  then obtain a b where ab: "unique_labels y_true y_pred = [a, b]"
    by (auto simp: length_Suc_conv numeral_2_eq_2)
  have "distinct (unique_labels y_true y_pred)"
    by (simp add: unique_labels_def)
  then have neq: "a \<noteq> b" by (simp add: ab)
  have "set (unique_labels y_true y_pred) = set y_true \<union> set y_pred"
    by (simp add: unique_labels_def)
  then have sets: "set y_true \<union> set y_pred = {a, b}" by (simp add: ab)
  have inz: "\<forall>tp \<in> set (zip y_true y_pred). fst tp \<in> {a, b} \<and> snd tp \<in> {a, b}"
  proof
    fix tp assume "tp \<in> set (zip y_true y_pred)"
    then have "(fst tp, snd tp) \<in> set (zip y_true y_pred)" by simp
    then have "fst tp \<in> set y_true" "snd tp \<in> set y_pred"
      by (rule set_zip_leftD, rule set_zip_rightD)
    then show "fst tp \<in> {a, b} \<and> snd tp \<in> {a, b}" using sets by blast
  qed
  have "cm = [[length (filter (\<lambda>tp. tp = (a, a)) (zip y_true y_pred)),
               length (filter (\<lambda>tp. tp = (a, b)) (zip y_true y_pred))],
              [length (filter (\<lambda>tp. tp = (b, a)) (zip y_true y_pred)),
               length (filter (\<lambda>tp. tp = (b, b)) (zip y_true y_pred))]]"
    using cm len by (simp add: confusion_matrix_def ab Let_def)
  with cells have
    "tn = length (filter (\<lambda>tp. tp = (a, a)) (zip y_true y_pred))"
    "fp = length (filter (\<lambda>tp. tp = (a, b)) (zip y_true y_pred))"
    "fn = length (filter (\<lambda>tp. tp = (b, a)) (zip y_true y_pred))"
    "tp = length (filter (\<lambda>tp. tp = (b, b)) (zip y_true y_pred))"
    by simp_all
  with count_pairs_two_classes [OF neq inz]
  have "tn + fp + fn + tp = length (zip y_true y_pred)" by simp
  then show "true_positives m + true_negatives m + false_positives m + false_negatives m
           = length y_true"
    using len by (simp add: m)
  have "y_true @ y_pred \<noteq> []" using sets by auto
  then show "length y_true > 0" using len by auto
qed

subsection \<open>Calibration: the first loop\<close>

lemma phase1_loop_Cons:
  "phase1_loop te ys tf (c # cs) b0 =
     (case evaluate_model ys (classify te (snd c)) te (snd c) of
        Inl e \<Rightarrow> Inl e
      | Inr m \<Rightarrow> phase1_loop te ys tf cs (keep_best tf b0 (c, m)))"
  by (cases c) (simp add: keep_best_def chosen_def meets_requirements_def split: sum.splits)

lemma phase1_loop_fold:
  "phase1_loop te ys tf cs b0 = Inr b \<Longrightarrow>
     \<exists>ms. list_all2 (\<lambda>c m. evaluate_model ys (classify te (snd c)) te (snd c) = Inr m) cs ms
        \<and> b = foldl (keep_best tf) b0 (zip cs ms)"
proof (induction cs arbitrary: b0)
  case Nil
  then show ?case by simp
next
  case (Cons c cs)
  from Cons.prems obtain m where
    m: "evaluate_model ys (classify te (snd c)) te (snd c) = Inr m"
    and rest: "phase1_loop te ys tf cs (keep_best tf b0 (c, m)) = Inr b"
    unfolding phase1_loop_Cons by (auto split: sum.splits)
  from Cons.IH [OF rest] obtain ms where
    ms: "list_all2 (\<lambda>c m. evaluate_model ys (classify te (snd c)) te (snd c) = Inr m) cs ms"
    and b: "b = foldl (keep_best tf) (keep_best tf b0 (c, m)) (zip cs ms)"
    by blast
  have "list_all2 (\<lambda>c m. evaluate_model ys (classify te (snd c)) te (snd c) = Inr m) (c # cs) (m # ms)"
    using m ms by simp
  moreover have "b = foldl (keep_best tf) b0 (zip (c # cs) (m # ms))"
    using b by simp
  ultimately show ?case by blast
qed

lemma first_best_SomeI:
  assumes "i < length xs" and "b = chosen (xs ! i)" and "meets_requirements tf (snd (xs ! i))"
    and "\<forall>j < length xs. meets_requirements tf (snd (xs ! j))
                \<longrightarrow> detection_rate (snd (xs ! j)) \<le> detection_rate (snd (xs ! i))"
    and "\<forall>j < i. meets_requirements tf (snd (xs ! j))
                \<longrightarrow> detection_rate (snd (xs ! j)) < detection_rate (snd (xs ! i))"
  shows "first_best tf xs (Some b)"
  unfolding first_best_def using assms by auto

lemma first_best_foldl: "first_best tf xs (foldl (keep_best tf) None xs)"
proof (induction xs rule: rev_induct)
  case Nil
  then show ?case by (simp add: first_best_def)
next
  case (snoc x xs)
  let ?b = "foldl (keep_best tf) None xs"
  have fold: "foldl (keep_best tf) None (xs @ [x]) = keep_best tf ?b x" by simp
  show ?case
  proof (cases ?b)
    case None
    then have none: "\<forall>i < length xs. \<not> meets_requirements tf (snd (xs ! i))"
      using snoc by (simp add: first_best_def)
    show ?thesis
    proof (cases "meets_requirements tf (snd x)")
      case True
      then have k: "keep_best tf ?b x = Some (chosen x)"
        using None by (simp add: keep_best_def chosen_def)
      have "first_best tf (xs @ [x]) (Some (chosen x))"
      proof (rule first_best_SomeI [where i = "length xs"])
        show "\<forall>j < length (xs @ [x]). meets_requirements tf (snd ((xs @ [x]) ! j))
          \<longrightarrow> detection_rate (snd ((xs @ [x]) ! j)) \<le> detection_rate (snd ((xs @ [x]) ! length xs))"
          using none by (auto simp: nth_append less_Suc_eq)
        show "\<forall>j < length xs. meets_requirements tf (snd ((xs @ [x]) ! j))
          \<longrightarrow> detection_rate (snd ((xs @ [x]) ! j)) < detection_rate (snd ((xs @ [x]) ! length xs))"
          using none by (auto simp: nth_append)
      qed (use True in simp_all)
      then show ?thesis unfolding fold k .
    next
      case False
      then have k: "keep_best tf ?b x = None"
        using None by (simp add: keep_best_def)
      show ?thesis unfolding fold k first_best_def
        using none False by (auto simp: nth_append less_Suc_eq)
    qed
  next
    case (Some b)
    then obtain i where i: "i < length xs" and b: "b = chosen (xs ! i)"
      and mi: "meets_requirements tf (snd (xs ! i))"
      and le: "\<forall>j < length xs. meets_requirements tf (snd (xs ! j))
                \<longrightarrow> detection_rate (snd (xs ! j)) \<le> detection_rate (snd (xs ! i))"
      and lt: "\<forall>j < i. meets_requirements tf (snd (xs ! j))
                \<longrightarrow> detection_rate (snd (xs ! j)) < detection_rate (snd (xs ! i))"
      using snoc by (auto simp: first_best_def)
    have drb: "detection_rate (best_metrics b) = detection_rate (snd (xs ! i))"
      by (simp add: b chosen_def)
    show ?thesis
    proof (cases "meets_requirements tf (snd x) \<and> detection_rate (snd x) > detection_rate (snd (xs ! i))")
      case True
      then have k: "keep_best tf ?b x = Some (chosen x)"
        using Some drb by (simp add: keep_best_def chosen_def)
      have lt': "\<forall>j < length xs. meets_requirements tf (snd ((xs @ [x]) ! j))
          \<longrightarrow> detection_rate (snd ((xs @ [x]) ! j)) < detection_rate (snd x)"
        using le True by (fastforce simp: nth_append)
      have "first_best tf (xs @ [x]) (Some (chosen x))"
      proof (rule first_best_SomeI [where i = "length xs"])
        show "\<forall>j < length (xs @ [x]). meets_requirements tf (snd ((xs @ [x]) ! j))
          \<longrightarrow> detection_rate (snd ((xs @ [x]) ! j)) \<le> detection_rate (snd ((xs @ [x]) ! length xs))"
        proof (intro allI impI)
          fix j assume "j < length (xs @ [x])" and m: "meets_requirements tf (snd ((xs @ [x]) ! j))"
          then have "j < length xs \<or> j = length xs" by auto
          then show "detection_rate (snd ((xs @ [x]) ! j)) \<le> detection_rate (snd ((xs @ [x]) ! length xs))"
            using lt' m by (auto simp: less_imp_le)
        qed
        show "\<forall>j < length xs. meets_requirements tf (snd ((xs @ [x]) ! j))
          \<longrightarrow> detection_rate (snd ((xs @ [x]) ! j)) < detection_rate (snd ((xs @ [x]) ! length xs))"
          using lt' by simp
      qed (use True in simp_all)
      then show ?thesis unfolding fold k .
    next
      case False
      then have k: "keep_best tf ?b x = Some b"
        using Some drb by (auto simp: keep_best_def)
      have i': "i < length (xs @ [x])" using i by simp
      have xi: "(xs @ [x]) ! i = xs ! i" using i by (simp add: nth_append)
      have le': "\<forall>j < length (xs @ [x]). meets_requirements tf (snd ((xs @ [x]) ! j))
          \<longrightarrow> detection_rate (snd ((xs @ [x]) ! j)) \<le> detection_rate (snd (xs ! i))"
      proof (intro allI impI)
        fix j assume "j < length (xs @ [x])" and m: "meets_requirements tf (snd ((xs @ [x]) ! j))"
        then consider "j < length xs" | "j = length xs" by fastforce
        then show "detection_rate (snd ((xs @ [x]) ! j)) \<le> detection_rate (snd (xs ! i))"
        proof cases
          case 1
          then show ?thesis using le m by (simp add: nth_append)
        next
          case 2
          then show ?thesis using False m by simp
        qed
      qed
      have lt': "\<forall>j < i. meets_requirements tf (snd ((xs @ [x]) ! j))
          \<longrightarrow> detection_rate (snd ((xs @ [x]) ! j)) < detection_rate (snd (xs ! i))"
        using lt i by (simp add: nth_append)
      have "first_best tf (xs @ [x]) (Some b)"
        by (rule first_best_SomeI [where i = i]) (use i' xi b mi le' lt' in simp_all)
      then show ?thesis unfolding fold k .
    qed
  qed
qed

lemma strategies_length: "length (strategies tr) = 9" by (simp add: strategies_def)

text \<open>
  Where the first loop runs to its end, that is on train errors, held-out errors and labels
  and a target FPR for which no evaluation raises: it evaluates exactly the nine thresholds
  mean+3\<sigma>, mean+2\<sigma>, mean+1\<sigma>, mean
  and the 95th, 90th, 85th, 80th and 75th percentiles of the train errors, in this order, and
  its selection is empty when no candidate has detection rate \<ge> 0.85 and FPR \<le> target;
  otherwise it is a candidate i that meets both, with the highest detection rate among
  those that do, and every earlier candidate that meets both has a strictly lower
  detection rate (ties go to the candidate evaluated first).
\<close>

theorem phase1_selects_first_best:
  assumes "train_errors \<noteq> []"
    and "phase1_loop test_errors test_labels target_fpr (strategies train_errors) None = Inr best"
  shows "map snd (strategies train_errors) =
           [mean train_errors + 3 * std train_errors, mean train_errors + 2 * std train_errors,
            mean train_errors + 1 * std train_errors, mean train_errors,
            percentile train_errors 95, percentile train_errors 90, percentile train_errors 85,
            percentile train_errors 80, percentile train_errors 75]
       \<and> (\<exists>ms. length ms = 9
            \<and> (\<forall>i < 9. evaluate_model test_labels (classify test_errors (snd (strategies train_errors ! i)))
                          test_errors (snd (strategies train_errors ! i)) = Inr (ms ! i))
            \<and> (case best of
                 None \<Rightarrow> \<forall>i < 9. \<not> meets_requirements target_fpr (ms ! i)
               | Some b \<Rightarrow> \<exists>i < 9.
                    b = \<lparr>best_threshold = snd (strategies train_errors ! i), best_metrics = ms ! i,
                         best_strategy = fst (strategies train_errors ! i)\<rparr>
                  \<and> meets_requirements target_fpr (ms ! i)
                  \<and> (\<forall>j < 9. meets_requirements target_fpr (ms ! j)
                         \<longrightarrow> detection_rate (ms ! j) \<le> detection_rate (ms ! i))
                  \<and> (\<forall>j < i. meets_requirements target_fpr (ms ! j)
                         \<longrightarrow> detection_rate (ms ! j) < detection_rate (ms ! i))))"
proof
  show "map snd (strategies train_errors) =
           [mean train_errors + 3 * std train_errors, mean train_errors + 2 * std train_errors,
            mean train_errors + 1 * std train_errors, mean train_errors,
            percentile train_errors 95, percentile train_errors 90, percentile train_errors 85,
            percentile train_errors 80, percentile train_errors 75]"
    by (simp add: strategies_def)
next
  let ?cs = "strategies train_errors"
  from phase1_loop_fold [OF assms(2)] obtain ms where
    ev: "list_all2 (\<lambda>c m. evaluate_model test_labels (classify test_errors (snd c)) test_errors (snd c) = Inr m) ?cs ms"
    and best: "best = foldl (keep_best target_fpr) None (zip ?cs ms)"
    by blast
  have len: "length ms = 9"
    using list_all2_lengthD [OF ev] by (simp add: strategies_length)
  have lz: "length (zip ?cs ms) = 9" by (simp add: len strategies_length)
  have nz: "\<And>i. i < 9 \<Longrightarrow> zip ?cs ms ! i = (?cs ! i, ms ! i)"
    by (simp add: len strategies_length)
  have evi: "\<forall>i < 9. evaluate_model test_labels (classify test_errors (snd (?cs ! i)))
                          test_errors (snd (?cs ! i)) = Inr (ms ! i)"
    using list_all2_nthD [OF ev] by (simp add: strategies_length)
  have fb: "first_best target_fpr (zip ?cs ms) best"
    unfolding best by (rule first_best_foldl)
  have sel: "(case best of
                 None \<Rightarrow> \<forall>i < 9. \<not> meets_requirements target_fpr (ms ! i)
               | Some b \<Rightarrow> \<exists>i < 9.
                    b = \<lparr>best_threshold = snd (?cs ! i), best_metrics = ms ! i,
                         best_strategy = fst (?cs ! i)\<rparr>
                  \<and> meets_requirements target_fpr (ms ! i)
                  \<and> (\<forall>j < 9. meets_requirements target_fpr (ms ! j)
                         \<longrightarrow> detection_rate (ms ! j) \<le> detection_rate (ms ! i))
                  \<and> (\<forall>j < i. meets_requirements target_fpr (ms ! j)
                         \<longrightarrow> detection_rate (ms ! j) < detection_rate (ms ! i)))"
  proof (cases best)
    case None
    then have "\<forall>i < length (zip ?cs ms). \<not> meets_requirements target_fpr (snd (zip ?cs ms ! i))"
      using fb by (simp add: first_best_def)
    then have "\<forall>i < 9. \<not> meets_requirements target_fpr (ms ! i)"
      unfolding lz using nz by simp
    then show ?thesis using None by simp
  next
    case (Some b)
    then obtain i where i: "i < 9" and b: "b = chosen (zip ?cs ms ! i)"
      and mi: "meets_requirements target_fpr (snd (zip ?cs ms ! i))"
      and le: "\<forall>j < 9. meets_requirements target_fpr (snd (zip ?cs ms ! j))
                \<longrightarrow> detection_rate (snd (zip ?cs ms ! j)) \<le> detection_rate (snd (zip ?cs ms ! i))"
      and lt: "\<forall>j < i. meets_requirements target_fpr (snd (zip ?cs ms ! j))
                \<longrightarrow> detection_rate (snd (zip ?cs ms ! j)) < detection_rate (snd (zip ?cs ms ! i))"
      using fb unfolding first_best_def lz by auto
    have "b = \<lparr>best_threshold = snd (?cs ! i), best_metrics = ms ! i, best_strategy = fst (?cs ! i)\<rparr>"
      using b i by (simp add: nz chosen_def)
    moreover have "meets_requirements target_fpr (ms ! i)" using mi i by (simp add: nz)
    moreover have "\<forall>j < 9. meets_requirements target_fpr (ms ! j)
                         \<longrightarrow> detection_rate (ms ! j) \<le> detection_rate (ms ! i)"
      using le i by (simp add: nz)
    moreover have "\<forall>j < i. meets_requirements target_fpr (ms ! j)
                         \<longrightarrow> detection_rate (ms ! j) < detection_rate (ms ! i)"
      using lt i by (simp add: nz)
    ultimately show ?thesis using Some i by auto
  qed
  show "\<exists>ms. length ms = 9
            \<and> (\<forall>i < 9. evaluate_model test_labels (classify test_errors (snd (?cs ! i)))
                          test_errors (snd (?cs ! i)) = Inr (ms ! i))
            \<and> (case best of
                 None \<Rightarrow> \<forall>i < 9. \<not> meets_requirements target_fpr (ms ! i)
               | Some b \<Rightarrow> \<exists>i < 9.
                    b = \<lparr>best_threshold = snd (?cs ! i), best_metrics = ms ! i,
                         best_strategy = fst (?cs ! i)\<rparr>
                  \<and> meets_requirements target_fpr (ms ! i)
                  \<and> (\<forall>j < 9. meets_requirements target_fpr (ms ! j)
                         \<longrightarrow> detection_rate (ms ! j) \<le> detection_rate (ms ! i))
                  \<and> (\<forall>j < i. meets_requirements target_fpr (ms ! j)
                         \<longrightarrow> detection_rate (ms ! j) < detection_rate (ms ! i)))"
    using len evi sel by blast
qed

lemma mean_examples: "mean [1, 3] = 2" "mean [11, 13] = 12" "mean [101, 103] = 102"
  by (simp_all add: mean_def)

lemma std_examples: "std [1, 3] = 1" "std [11, 13] = 1" "std [101, 103] = 1"
  by (simp_all add: std_def mean_def)

lemma strategies_1_3: "strategies [1, 3] =
  [(''mean + 3*std'', 5), (''mean + 2*std'', 4), (''mean + 1*std'', 3), (''mean'', 2),
   (''95th percentile'', 29/10), (''90th percentile'', 28/10), (''85th percentile'', 27/10),
   (''80th percentile'', 26/10), (''75th percentile'', 25/10)]"
  by (simp add: strategies_def mean_examples std_examples percentile_def)

lemma evaluate_separated: "0 \<le> t \<Longrightarrow> t < 10 \<Longrightarrow> evaluate_model [0, 1] (classify [0, 10] t) [0, 10] t = Inr 
      \<lparr>accuracy = 1, precision = 1, recall = 1, f1_score = 1,
        detection_rate = 1, false_positive_rate = 0, true_positives = 1, false_positives = 0,
        true_negatives = 1, false_negatives = 0, threshold = t\<rparr>"
  by (simp add: evaluate_model_def classify_def confusion_matrix_def unique_labels_def)

lemma phase1_loop_example:
  "phase1_loop [0, 10] [0, 1] (1/10) (strategies [1, 3]) None
   = Inr (Some \<lparr>best_threshold = 5,
                 best_metrics = \<lparr>accuracy = 1, precision = 1, recall = 1, f1_score = 1,
                   detection_rate = 1, false_positive_rate = 0, true_positives = 1,
                   false_positives = 0, true_negatives = 1, false_negatives = 0, threshold = 5\<rparr>,
                 best_strategy = ''mean + 3*std''\<rparr>)"
  by (simp add: strategies_1_3 evaluate_separated)

text \<open>
  Train errors 1 and 3 (mean 2, \<sigma> 1); held-out errors 0 and 10 with labels 0 and 1. All nine
  thresholds separate the two, so all nine tie at detection rate 1, and the first one
  (mean + 3\<sigma> = 5) is selected.
\<close>

theorem phase1_selects_first_best_witness:
  "phase1_loop [0, 10] [0, 1] (1/10) (strategies [1, 3]) None
     = Inr (Some \<lparr>best_threshold = 5, best_metrics = \<lparr>accuracy = 1, precision = 1, recall = 1, f1_score = 1,
        detection_rate = 1, false_positive_rate = 0, true_positives = 1, false_positives = 0,
        true_negatives = 1, false_negatives = 0, threshold = 5\<rparr>, best_strategy = ''mean + 3*std''\<rparr>)
   \<and> (\<exists>ms. length ms = 9
        \<and> (\<forall>i < 9. evaluate_model [0, 1] (classify [0, 10] (snd (strategies [1, 3] ! i)))
                      [0, 10] (snd (strategies [1, 3] ! i)) = Inr (ms ! i))
        \<and> (\<exists>i < 9. \<lparr>best_threshold = 5, best_metrics = \<lparr>accuracy = 1, precision = 1, recall = 1, f1_score = 1,
        detection_rate = 1, false_positive_rate = 0, true_positives = 1, false_positives = 0,
        true_negatives = 1, false_negatives = 0, threshold = 5\<rparr>, best_strategy = ''mean + 3*std''\<rparr>
                   = \<lparr>best_threshold = snd (strategies [1, 3] ! i), best_metrics = ms ! i,
                      best_strategy = fst (strategies [1, 3] ! i)\<rparr>
              \<and> meets_requirements (1/10) (ms ! i)
              \<and> (\<forall>j < 9. meets_requirements (1/10) (ms ! j)
                     \<longrightarrow> detection_rate (ms ! j) \<le> detection_rate (ms ! i))
              \<and> (\<forall>j < i. meets_requirements (1/10) (ms ! j)
                     \<longrightarrow> detection_rate (ms ! j) < detection_rate (ms ! i))))"
proof -
  have ne: "[1, 3 :: real] \<noteq> []" by simp
  have run: "phase1_loop [0, 10] [0, 1] (1/10) (strategies [1, 3]) None
     = Inr (Some \<lparr>best_threshold = 5, best_metrics = \<lparr>accuracy = 1, precision = 1, recall = 1, f1_score = 1,
        detection_rate = 1, false_positive_rate = 0, true_positives = 1, false_positives = 0,
        true_negatives = 1, false_negatives = 0, threshold = 5\<rparr>, best_strategy = ''mean + 3*std''\<rparr>)"
    by (simp add: strategies_1_3 evaluate_separated)
  from phase1_selects_first_best [OF ne run] show ?thesis
    using run by simp
qed

text \<open>
  C1. Train errors 1 and 3 (thresholds 5, 4, 3, 2, ...); held-out errors 4.5 and 10, both
  labelled malicious; target FPR 0.1. The first candidate (mean + 3\<sigma> = 5) flags one window
  and is evaluated, with detection rate 1/2. The second (mean + 2\<sigma> = 4) flags both: labels
  and predictions hold the single class 1, the confusion matrix is [[2]], and
  \<^verbatim>\<open>evaluate_model\<close> raises ValueError. The loop ends there, after two of the nine
  candidates, and \<^verbatim>\<open>find_optimal_threshold\<close> raises instead of selecting.
\<close>

theorem phase1_single_class_raises:
  "evaluate_model [1, 1] (classify [9/2, 10] 5) [9/2, 10] 5
     = Inr \<lparr>accuracy = 1/2, precision = 1, recall = 1/2, f1_score = 2/3,
            detection_rate = 1/2, false_positive_rate = 0, true_positives = 1,
            false_positives = 0, true_negatives = 0, false_negatives = 1, threshold = 5\<rparr>
   \<and> evaluate_model [1, 1] (classify [9/2, 10] 4) [9/2, 10] 4
     = Inl (ValueError ''not enough values to unpack (expected 4, got 1)'')
   \<and> phase1_loop [9/2, 10] [1, 1] (1/10) (strategies [1, 3]) None
     = Inl (ValueError ''not enough values to unpack (expected 4, got 1)'')
   \<and> find_optimal_threshold [1, 3] [9/2, 10] [1, 1] (1/10)
     = Inl (ValueError ''not enough values to unpack (expected 4, got 1)'')"
  (is "?A \<and> ?B \<and> ?C \<and> ?D")
proof (intro conjI)
  show A: ?A
    by (simp add: evaluate_model_def classify_def confusion_matrix_def unique_labels_def Let_def)
  show B: ?B
    by (simp add: evaluate_model_def classify_def confusion_matrix_def unique_labels_def
        str_nat_1)
  show C: ?C
    unfolding strategies_1_3 phase1_loop.simps A B by simp
  show ?D
    unfolding find_optimal_threshold_def C by simp
qed

text \<open>
  The first loop ends early only with the exception of an evaluation, that of the first
  candidate whose evaluation raises.
\<close>

lemma phase1_loop_Inl:
  "phase1_loop te ys tf cs b = Inl e
   \<Longrightarrow> \<exists>c \<in> set cs. evaluate_model ys (classify te (snd c)) te (snd c) = Inl e"
proof (induction cs arbitrary: b)
  case Nil
  then show ?case by simp
next
  case (Cons c cs)
  show ?case
  proof (cases "evaluate_model ys (classify te (snd c)) te (snd c)")
    case (Inl e')
    with Cons.prems have "e' = e" by (simp add: phase1_loop_Cons)
    with Inl show ?thesis by simp
  next
    case (Inr m)
    with Cons.prems have "phase1_loop te ys tf cs (keep_best tf b (c, m)) = Inl e"
      by (simp add: phase1_loop_Cons)
    from Cons.IH [OF this] show ?thesis by auto
  qed
qed

subsection \<open>Calibration: the fallback loop\<close>

lemma phase1_loop_none:
  "(\<And>c. c \<in> set cs \<Longrightarrow> \<exists>m. evaluate_model ys (classify te (snd c)) te (snd c) = Inr m
        \<and> \<not> meets_requirements tf m)
   \<Longrightarrow> phase1_loop te ys tf cs b = Inr b"
proof (induction cs)
  case Nil
  then show ?case by simp
next
  case (Cons c cs)
  from Cons.prems [of c] obtain m where m: "evaluate_model ys (classify te (snd c)) te (snd c) = Inr m"
    and nm: "\<not> meets_requirements tf m" by auto
  show ?case unfolding phase1_loop_Cons using m nm Cons by (simp add: keep_best_def)
qed

lemma phase2_loop_unchanged:
  "(\<And>p. p \<in> set ps \<Longrightarrow> \<exists>m. evaluate_model ys (classify te (percentile tr p)) te (percentile tr p) = Inr m
        \<and> \<not> balance_score tf m > bs)
   \<Longrightarrow> phase2_loop tr te ys tf ps (bs, b) = Inr (bs, b)"
proof (induction ps)
  case Nil
  then show ?case by simp
next
  case (Cons p ps)
  from Cons.prems [of p] obtain m where m: "evaluate_model ys (classify te (percentile tr p)) te (percentile tr p) = Inr m"
    and nm: "\<not> balance_score tf m > bs" by auto
  show ?case using m nm Cons by (simp add: Let_def)
qed

lemma percentile_1_1: "q < 100 \<Longrightarrow> percentile [1, 1] q = 1"
  by (simp add: percentile_def)

lemma strategies_1_1: "c \<in> set (strategies [1, 1]) \<Longrightarrow> snd c = 1"
  by (auto simp: strategies_def mean_def std_def percentile_1_1)

lemma evaluate_inverted: "evaluate_model [0, 1] (classify [5, 0] 1) [5, 0] 1 = Inr
      \<lparr>accuracy = 0, precision = 0, recall = 0, f1_score = 0,
        detection_rate = 0, false_positive_rate = 1, true_positives = 0, false_positives = 1,
        true_negatives = 0, false_negatives = 1, threshold = 1\<rparr>"
  by (simp add: evaluate_model_def classify_def confusion_matrix_def unique_labels_def)

text \<open>
  C2. The fallback loop starts from \<^verbatim>\<open>best_score = -1\<close> and takes a percentile only when its
  score is greater. Train errors 1, 1; held-out errors 5, 0 with labels 0, 1; target FPR 0.1:
  no candidate of the first loop meets the requirement, every percentile from 50 to 99 is
  the threshold 1 with detection rate 0 and FPR 1, so every score is 0 - 2 * 1 = -2, none is
  taken, and the function ends in the TypeError of formatting \<^verbatim>\<open>None\<close> instead of returning
  the threshold of maximum score.
\<close>

theorem find_optimal_threshold_no_balance:
  "find_optimal_threshold [1, 1] [5, 0] [0, 1] (1/10)
     = Inl (TypeError ''unsupported format string passed to NoneType.__format__'')"
proof -
  have p1: "phase1_loop [5, 0] [0, 1] (1/10) (strategies [1, 1]) None = Inr None"
    by (rule phase1_loop_none) (auto simp: strategies_1_1 evaluate_inverted meets_requirements_def)
  have p2: "phase2_loop [1, 1] [5, 0] [0, 1] (1/10) [50 ..< 100] (- 1, None) = Inr (- 1, None)"
    by (rule phase2_loop_unchanged) (auto simp: percentile_1_1 evaluate_inverted balance_score_def)
  show ?thesis unfolding find_optimal_threshold_def p1 p2 by simp
qed

text \<open>
  When the fallback loop runs to its end it has evaluated the percentiles 50 to 99 in
  order. If some score exceeds -1 it holds the first percentile of maximal score; if none
  does it holds nothing, which is the case of the TypeError above.
\<close>

lemma phase2_loop_Cons:
  "phase2_loop tr te ys tf (p # ps) s =
     (case evaluate_model ys (classify te (percentile tr p)) te (percentile tr p) of
        Inl e \<Rightarrow> Inl e
      | Inr m \<Rightarrow> phase2_loop tr te ys tf ps (keep_balance tf tr s (p, m)))"
  by (cases s) (simp add: keep_balance_def percentile_choice_def Let_def split: sum.splits)

lemma phase2_loop_fold:
  "phase2_loop tr te ys tf ps s0 = Inr s \<Longrightarrow>
     \<exists>ms. list_all2 (\<lambda>p m. evaluate_model ys (classify te (percentile tr p)) te (percentile tr p) = Inr m) ps ms
        \<and> s = foldl (keep_balance tf tr) s0 (zip ps ms)"
proof (induction ps arbitrary: s0)
  case Nil
  then show ?case by simp
next
  case (Cons p ps)
  from Cons.prems obtain m where
    m: "evaluate_model ys (classify te (percentile tr p)) te (percentile tr p) = Inr m"
    and rest: "phase2_loop tr te ys tf ps (keep_balance tf tr s0 (p, m)) = Inr s"
    unfolding phase2_loop_Cons by (auto split: sum.splits)
  from Cons.IH [OF rest] obtain ms where
    ms: "list_all2 (\<lambda>p m. evaluate_model ys (classify te (percentile tr p)) te (percentile tr p) = Inr m) ps ms"
    and s: "s = foldl (keep_balance tf tr) (keep_balance tf tr s0 (p, m)) (zip ps ms)"
    by blast
  have "list_all2 (\<lambda>p m. evaluate_model ys (classify te (percentile tr p)) te (percentile tr p) = Inr m)
          (p # ps) (m # ms)"
    using m ms by simp
  moreover have "s = foldl (keep_balance tf tr) s0 (zip (p # ps) (m # ms))"
    using s by simp
  ultimately show ?case by blast
qed

lemma first_balance_foldl:
  "first_balance tf tr xs (foldl (keep_balance tf tr) (- 1, None) xs)"
proof (induction xs rule: rev_induct)
  case Nil
  then show ?case by (simp add: first_balance_def)
next
  case (snoc x xs)
  obtain bs b where st: "foldl (keep_balance tf tr) (- 1, None) xs = (bs, b)"
    by (cases "foldl (keep_balance tf tr) (- 1, None) xs")
  have fold: "foldl (keep_balance tf tr) (- 1, None) (xs @ [x]) = keep_balance tf tr (bs, b) x"
    by (simp add: st)
  have ih: "first_balance tf tr xs (bs, b)" using snoc st by simp
  show ?case
  proof (cases b)
    case None
    then have bs: "bs = - 1"
      and low: "\<forall>i < length xs. balance_score tf (snd (xs ! i)) \<le> - 1"
      using ih by (simp_all add: first_balance_def)
    show ?thesis
    proof (cases "balance_score tf (snd x) > - 1")
      case True
      then have k: "keep_balance tf tr (bs, b) x = (balance_score tf (snd x), Some (percentile_choice tr x))"
        by (simp add: keep_balance_def bs)
      have "first_balance tf tr (xs @ [x]) (balance_score tf (snd x), Some (percentile_choice tr x))"
        unfolding first_balance_def prod.case option.case
      proof (intro exI [where x = "length xs"] conjI allI impI)
        fix j assume "j < length (xs @ [x])"
        then have "j < length xs \<or> j = length xs" by auto
        then show "balance_score tf (snd ((xs @ [x]) ! j)) \<le> balance_score tf (snd ((xs @ [x]) ! length xs))"
          using low True by (auto simp: nth_append)
      next
        fix j assume "j < length xs"
        then show "balance_score tf (snd ((xs @ [x]) ! j)) < balance_score tf (snd ((xs @ [x]) ! length xs))"
          using low True by (auto simp: nth_append)
      qed (use True in simp_all)
      then show ?thesis unfolding fold k .
    next
      case False
      then have k: "keep_balance tf tr (bs, b) x = (- 1, None)"
        by (simp add: keep_balance_def bs None)
      show ?thesis unfolding fold k first_balance_def
        using low False by (auto simp: nth_append less_Suc_eq)
    qed
  next
    case (Some sel)
    then obtain i where i: "i < length xs" and sel: "sel = percentile_choice tr (xs ! i)"
      and bs: "bs = balance_score tf (snd (xs ! i))" and gt: "bs > - 1"
      and le: "\<forall>j < length xs. balance_score tf (snd (xs ! j)) \<le> balance_score tf (snd (xs ! i))"
      and lt: "\<forall>j < i. balance_score tf (snd (xs ! j)) < balance_score tf (snd (xs ! i))"
      using ih by (auto simp: first_balance_def)
    show ?thesis
    proof (cases "balance_score tf (snd x) > bs")
      case True
      then have k: "keep_balance tf tr (bs, b) x = (balance_score tf (snd x), Some (percentile_choice tr x))"
        by (simp add: keep_balance_def)
      have lt': "\<forall>j < length xs. balance_score tf (snd ((xs @ [x]) ! j)) < balance_score tf (snd x)"
        using le True bs by (fastforce simp: nth_append)
      have "first_balance tf tr (xs @ [x]) (balance_score tf (snd x), Some (percentile_choice tr x))"
        unfolding first_balance_def prod.case option.case
      proof (intro exI [where x = "length xs"] conjI allI impI)
        fix j assume "j < length (xs @ [x])"
        then have "j < length xs \<or> j = length xs" by auto
        then show "balance_score tf (snd ((xs @ [x]) ! j)) \<le> balance_score tf (snd ((xs @ [x]) ! length xs))"
          using lt' by (auto simp: less_imp_le)
      next
        fix j assume "j < length xs"
        then show "balance_score tf (snd ((xs @ [x]) ! j)) < balance_score tf (snd ((xs @ [x]) ! length xs))"
          using lt' by simp
      qed (use True gt in simp_all)
      then show ?thesis unfolding fold k .
    next
      case False
      then have k: "keep_balance tf tr (bs, b) x = (bs, Some sel)"
        by (simp add: keep_balance_def Some)
      have "first_balance tf tr (xs @ [x]) (bs, Some sel)"
        unfolding first_balance_def prod.case option.case
      proof (intro exI [where x = i] conjI allI impI)
        fix j assume "j < length (xs @ [x])"
        then have "j < length xs \<or> j = length xs" by auto
        then show "balance_score tf (snd ((xs @ [x]) ! j)) \<le> balance_score tf (snd ((xs @ [x]) ! i))"
          using le False bs i by (auto simp: nth_append)
      next
        fix j assume "j < i"
        then show "balance_score tf (snd ((xs @ [x]) ! j)) < balance_score tf (snd ((xs @ [x]) ! i))"
          using lt i by (simp add: nth_append)
      qed (use i sel bs gt in \<open>simp_all add: nth_append\<close>)
      then show ?thesis unfolding fold k .
    qed
  qed
qed

lemma fallback_selects_first_maximum:
  assumes "phase2_loop tr te ys tf [50 ..< 100] (- 1, None) = Inr (s, sel)"
  shows "\<exists>ms. length ms = 50
          \<and> (\<forall>i < 50. evaluate_model ys (classify te (percentile tr (50 + i))) te
                          (percentile tr (50 + i)) = Inr (ms ! i))
          \<and> (case sel of
                None \<Rightarrow> \<forall>i < 50. balance_score tf (ms ! i) \<le> - 1
              | Some b \<Rightarrow> \<exists>i < 50.
                    b = percentile_choice tr (50 + i, ms ! i)
                  \<and> balance_score tf (ms ! i) > - 1
                  \<and> (\<forall>j < 50. balance_score tf (ms ! j) \<le> balance_score tf (ms ! i))
                  \<and> (\<forall>j < i. balance_score tf (ms ! j) < balance_score tf (ms ! i)))"
proof -
  define ps :: "nat list" where "ps = [50 ..< 100]"
  have lps: "length ps = 50" by (simp add: ps_def del: upt_rec_numeral)
  have pi: "\<And>i. i < 50 \<Longrightarrow> ps ! i = 50 + i"
    by (simp add: ps_def del: upt_rec_numeral)
  from phase2_loop_fold [OF assms [folded ps_def]] obtain ms where
    ev: "list_all2 (\<lambda>p m. evaluate_model ys (classify te (percentile tr p)) te (percentile tr p) = Inr m) ps ms"
    and st: "(s, sel) = foldl (keep_balance tf tr) (- 1, None) (zip ps ms)"
    by blast
  have len: "length ms = 50"
    using list_all2_lengthD [OF ev] by (simp add: lps)
  have lz: "length (zip ps ms) = 50" by (simp add: len lps)
  have nz: "\<And>i. i < 50 \<Longrightarrow> zip ps ms ! i = (50 + i, ms ! i)"
    by (simp add: len lps pi)
  have evi: "\<forall>i < 50. evaluate_model ys (classify te (percentile tr (50 + i))) te
                          (percentile tr (50 + i)) = Inr (ms ! i)"
  proof (intro allI impI)
    fix i :: nat assume i: "i < 50"
    then have "i < length ps" by (simp add: lps)
    from list_all2_nthD [OF ev this] i
    show "evaluate_model ys (classify te (percentile tr (50 + i))) te
            (percentile tr (50 + i)) = Inr (ms ! i)"
      by (simp add: pi)
  qed
  have fb: "first_balance tf tr (zip ps ms) (s, sel)"
    unfolding st by (rule first_balance_foldl)
  have "(case sel of
                None \<Rightarrow> \<forall>i < 50. balance_score tf (ms ! i) \<le> - 1
              | Some b \<Rightarrow> \<exists>i < 50.
                    b = percentile_choice tr (50 + i, ms ! i)
                  \<and> balance_score tf (ms ! i) > - 1
                  \<and> (\<forall>j < 50. balance_score tf (ms ! j) \<le> balance_score tf (ms ! i))
                  \<and> (\<forall>j < i. balance_score tf (ms ! j) < balance_score tf (ms ! i)))"
  proof (cases sel)
    case None
    then have "\<forall>i < length (zip ps ms). balance_score tf (snd (zip ps ms ! i)) \<le> - 1"
      using fb by (simp add: first_balance_def)
    then have "\<forall>i < 50. balance_score tf (ms ! i) \<le> - 1"
      unfolding lz using nz by simp
    then show ?thesis using None by simp
  next
    case (Some b)
    then obtain i where i: "i < 50" and b: "b = percentile_choice tr (zip ps ms ! i)"
      and gt: "balance_score tf (snd (zip ps ms ! i)) > - 1"
      and le: "\<forall>j < 50. balance_score tf (snd (zip ps ms ! j))
                  \<le> balance_score tf (snd (zip ps ms ! i))"
      and lt: "\<forall>j < i. balance_score tf (snd (zip ps ms ! j))
                  < balance_score tf (snd (zip ps ms ! i))"
      using fb unfolding first_balance_def lz by auto
    have "b = percentile_choice tr (50 + i, ms ! i)" using b i by (simp add: nz)
    moreover have "balance_score tf (ms ! i) > - 1" using gt i by (simp add: nz)
    moreover have "\<forall>j < 50. balance_score tf (ms ! j) \<le> balance_score tf (ms ! i)"
      using le i by (simp add: nz)
    moreover have "\<forall>j < i. balance_score tf (ms ! j) < balance_score tf (ms ! i)"
      using lt i by (simp add: nz)
    ultimately show ?thesis using Some i by auto
  qed
  with len evi show ?thesis by blast
qed

lemma fallback_runs_iff_nothing_selected:
  assumes "train_errors \<noteq> []" and "test_errors \<noteq> []"
    and "phase1_loop test_errors test_labels target_fpr (strategies train_errors) None = Inr best"
  shows "find_optimal_threshold train_errors test_errors test_labels target_fpr =
           (case best of
              Some b \<Rightarrow> Inr b
            | None \<Rightarrow>
                (case phase2_loop train_errors test_errors test_labels target_fpr [50 ..< 100] (- 1, None) of
                   Inl e \<Rightarrow> Inl e
                 | Inr (best_score, None) \<Rightarrow>
                     Inl (TypeError ''unsupported format string passed to NoneType.__format__'')
                 | Inr (best_score, Some b) \<Rightarrow> Inr b))"
  using assms by (simp add: find_optimal_threshold_def split: option.splits)

subsection \<open>Required columns\<close>

lemma expected_not_stripped:
  "f \<in> set expected_features \<Longrightarrow> f \<in> set (columns (strip_ts_label df)) \<longleftrightarrow> f \<in> set (columns df)"
  by (auto simp: strip_ts_label_def drop_column_def Let_def expected_features_def)

lemma missing_features_eq:
  "filter (\<lambda>f. f \<notin> set (columns (strip_ts_label df))) expected_features
   = filter (\<lambda>f. f \<notin> set (columns df)) expected_features"
  by (rule filter_cong) (simp_all add: expected_not_stripped)

lemma clean_data_present:
  "clean_data df numeric_cols = clean_data df (filter (\<lambda>c. c \<in> set (columns df)) numeric_cols)"
proof -
  have c: "columns (dropna df) = columns df" by (simp add: dropna_def)
  have eq: "filter (\<lambda>col. col \<in> set (columns df)) (filter (\<lambda>c. c \<in> set (columns df)) numeric_cols)
      = filter (\<lambda>col. col \<in> set (columns df)) numeric_cols"
    by simp
  show ?thesis unfolding clean_data_def Let_def c eq ..
qed

text \<open>
  C7 (as amended). When a required column is absent from an uploaded table,
  \<^verbatim>\<open>preprocess_for_detection\<close> fails with the ValueError whose message lists the absent
  required columns, all of them and no other, in the order of the required list; while
  \<^verbatim>\<open>clean_data\<close> does not fail for an absent column: its result is the one for the list of
  the columns that are present.
\<close>

theorem missing_features_reported:
  assumes "\<not> set expected_features \<subseteq> set (columns df)"
  shows "preprocess_for_detection (Inr df)
           = Inl (ValueError (''Missing required features: ''
                    @ py_repr_list (filter (\<lambda>f. f \<notin> set (columns df)) expected_features)))
       \<and> set (filter (\<lambda>f. f \<notin> set (columns df)) expected_features)
           = set expected_features - set (columns df)
       \<and> clean_data df numeric_cols
           = clean_data df (filter (\<lambda>c. c \<in> set (columns df)) numeric_cols)"
proof (intro conjI)
  have "filter (\<lambda>f. f \<notin> set (columns df)) expected_features \<noteq> []"
    using assms by (auto simp: filter_empty_conv)
  then show "preprocess_for_detection (Inr df)
           = Inl (ValueError (''Missing required features: ''
                    @ py_repr_list (filter (\<lambda>f. f \<notin> set (columns df)) expected_features)))"
    by (simp add: preprocess_for_detection_def Let_def missing_features_eq)
  show "set (filter (\<lambda>f. f \<notin> set (columns df)) expected_features)
           = set expected_features - set (columns df)"
    by auto
  show "clean_data df numeric_cols
           = clean_data df (filter (\<lambda>c. c \<in> set (columns df)) numeric_cols)"
    by (rule clean_data_present)
qed

theorem missing_features_reported_witness:
  "preprocess_for_detection
     (Inr \<lparr>columns = [''ts'', ''orig_pkts'', ''resp_pkts'', ''orig_bytes'', ''label''],
           records = [[Num 0, Num 1, Num 11, Num 101, Str ''benign'']]\<rparr>)
   = Inl (ValueError (''Missing required features: ['' @ [CHR 0x27] @ ''resp_bytes'' @ [CHR 0x27] @ '']''))"
proof -
  have h: "\<not> set expected_features
             \<subseteq> set (columns \<lparr>columns = [''ts'', ''orig_pkts'', ''resp_pkts'', ''orig_bytes'', ''label''],
                                records = [[Num 0, Num 1, Num 11, Num 101, Str ''benign'']]\<rparr>)"
    by (simp add: expected_features_def)
  show ?thesis
    using missing_features_reported [OF h, of "[]"]
    by (simp add: expected_features_def py_repr_list_def)
qed

text \<open>
  C7 as stated fails for the training preprocessor: on a table without \<^verbatim>\<open>resp_bytes\<close>,
  \<^verbatim>\<open>clean_data\<close> returns the three remaining columns normalized, and a scaler for three
  features.
\<close>

theorem clean_data_proceeds_without_column:
  "clean_data \<lparr>columns = [''orig_pkts'', ''resp_pkts'', ''orig_bytes''],
               records = [[Num 1, Num 11, Num 101], [Num 3, Num 13, Num 103]]\<rparr>
              expected_features
   = Inr (\<lparr>columns = [''orig_pkts'', ''resp_pkts'', ''orig_bytes''],
           records = [[Num (- 1), Num (- 1), Num (- 1)], [Num 1, Num 1, Num 1]]\<rparr>,
          Some [Some (2, 1), Some (12, 1), Some (102, 1)], [])"
  by (simp add: clean_data_def dropna_def select_columns_def cell_at_def expected_features_def
      fit_transform_def fit_def own_scale_def column_values_def List.map_filter_def mean_examples std_examples
      transform_def transform_cell_def assign_columns_def Let_def upt_rec)

subsection \<open>Label encoding\<close>

lemma map_label_cases:
  "map_label c = (if c = Str ''benign'' then Num 0 else if c = Str ''malicious'' then Num 1 else NaN)"
  by (cases c) auto

lemma prepare_fails_iff:
  "prepare df numeric_cols label_col create_seq L = Inl e
   \<longleftrightarrow> clean_data (snd (separate_labels df label_col)) numeric_cols = Inl e"
  by (auto simp: prepare_def Let_def split: prod.splits sum.splits)

text \<open>
  C8 (as amended). For a label column of dtype object, the pipeline maps "benign" to 0,
  "malicious" to 1 and every other value to a missing label (NaN), without failing: the
  pipeline before the split fails exactly when \<^verbatim>\<open>clean_data\<close> fails on the table without
  the label column.
\<close>

theorem unknown_labels_become_missing:
  assumes "label \<noteq> []" and "label \<in> set (columns df)" and "dtype_object (column df label)"
  shows "fst (separate_labels df (Some label))
           = Some (map (\<lambda>c. if c = Str ''benign'' then Num 0
                             else if c = Str ''malicious'' then Num 1 else NaN)
                       (column df label))
       \<and> (\<forall>e. prepare df numeric_cols (Some label) create_seq L = Inl e
               \<longleftrightarrow> clean_data (drop_column label df) numeric_cols = Inl e)"
proof
  have "map map_label (column df label)
      = map (\<lambda>c. if c = Str ''benign'' then Num 0
                  else if c = Str ''malicious'' then Num 1 else NaN) (column df label)"
    by (rule map_cong) (simp_all only: map_label_cases)
  then show "fst (separate_labels df (Some label))
           = Some (map (\<lambda>c. if c = Str ''benign'' then Num 0
                             else if c = Str ''malicious'' then Num 1 else NaN)
                       (column df label))"
    using assms by (simp add: separate_labels_def encode_labels_def)
  have "snd (separate_labels df (Some label)) = drop_column label df"
    using assms by (simp add: separate_labels_def)
  then show "\<forall>e. prepare df numeric_cols (Some label) create_seq L = Inl e
               \<longleftrightarrow> clean_data (drop_column label df) numeric_cols = Inl e"
    by (simp add: prepare_fails_iff)
qed

theorem unknown_labels_become_missing_witness:
  "fst (separate_labels \<lparr>columns = [''orig_pkts'', ''label''],
            records = [[Num 1, Str ''benign''], [Num 3, Str ''suspicious'']]\<rparr> (Some ''label''))
   = Some [Num 0, NaN]"
proof -
  let ?df = "\<lparr>columns = [''orig_pkts'', ''label''],
            records = [[Num 1, Str ''benign''], [Num 3, Str ''suspicious'']]\<rparr>"
  have a: "''label'' \<noteq> []" by simp
  have b: "''label'' \<in> set (columns ?df)" by simp
  have c: "dtype_object (column ?df ''label'')"
    by (simp add: dtype_object_def column_def cell_at_def)
  show ?thesis
    using unknown_labels_become_missing [OF a b c, of "[]" False 0]
    by (simp add: column_def cell_at_def)
qed

text \<open>
  C8 as stated fails: a table whose label column holds "suspicious" passes through the
  pipeline, and the label of that row is NaN.
\<close>

theorem unknown_label_not_rejected:
  "prepare \<lparr>columns = [''orig_pkts'', ''label''],
            records = [[Num 1, Str ''benign''], [Num 3, Str ''suspicious'']]\<rparr>
           expected_features (Some ''label'') False 10
   = Inr ([Row [Num (- 1)], Row [Num 1]], Some [Num 0, NaN],
          \<lparr>columns = [''orig_pkts''], records = [[Num (- 1)], [Num 1]]\<rparr>,
          Some [Some (2, 1)])"
  by (simp add: prepare_def separate_labels_def encode_labels_def dtype_object_def column_def
      drop_column_def clean_data_def dropna_def select_columns_def cell_at_def expected_features_def
      fit_transform_def fit_def own_scale_def column_values_def List.map_filter_def mean_examples std_examples
      transform_def transform_cell_def assign_columns_def Let_def upt_rec)

text \<open>
  The split that follows only indexes the samples and the labels: whatever permutation the
  generator draws, the pipeline returns on this table.
\<close>

lemma unknown_label_pipeline_returns:
  "\<exists>res. preprocess_pipeline permutation
            \<lparr>columns = [''orig_pkts'', ''label''],
             records = [[Num 1, Str ''benign''], [Num 3, Str ''suspicious'']]\<rparr>
            expected_features (Some ''label'') False 10 = Inr res"
proof -
  have p: "prepare \<lparr>columns = [''orig_pkts'', ''label''],
            records = [[Num 1, Str ''benign''], [Num 3, Str ''suspicious'']]\<rparr>
           expected_features (Some ''label'') False 10
   = Inr ([Row [Num (- 1)], Row [Num 1]], Some [Num 0, NaN],
          \<lparr>columns = [''orig_pkts''], records = [[Num (- 1)], [Num 1]]\<rparr>,
          Some [Some (2, 1)])"
    by (simp add: prepare_def separate_labels_def encode_labels_def dtype_object_def column_def
      drop_column_def clean_data_def dropna_def select_columns_def cell_at_def expected_features_def
      fit_transform_def fit_def own_scale_def column_values_def List.map_filter_def mean_examples
      std_examples transform_def transform_cell_def assign_columns_def Let_def upt_rec)
  show ?thesis
    unfolding preprocess_pipeline_def p
    by (simp add: train_test_split_def Let_def)
qed

subsection \<open>Normalization at inference\<close>

lemma column_values_Some:
  "\<forall>r \<in> set R. j < length r \<Longrightarrow> column_values (map (map Some) R) j = map (\<lambda>r. r ! j) R"
  by (induction R) (auto simp: column_values_def List.map_filter_def)

lemma fit_complete:
  assumes "R \<noteq> []" and "\<forall>r \<in> set R. length r = n"
  shows "fit (map (map Some) R) n
       = map (\<lambda>j. Some (mean (map (\<lambda>r. r ! j) R), own_scale (map (\<lambda>r. r ! j) R))) [0 ..< n]"
  unfolding fit_def
proof (rule map_cong [OF refl])
  fix j assume "j \<in> set [0 ..< n]"
  then have "\<forall>r \<in> set R. j < length r" using assms(2) by simp
  then have "column_values (map (map Some) R) j = map (\<lambda>r. r ! j) R"
    by (rule column_values_Some)
  then show "(let vs = column_values (map (map Some) R) j
              in if vs = [] then None else Some (mean vs, own_scale vs))
           = Some (mean (map (\<lambda>r. r ! j) R), own_scale (map (\<lambda>r. r ! j) R))"
    using assms(1) by (simp add: Let_def)
qed

lemma transform_row:
  assumes "length r = n"
  shows "map transform_cell (zip (map Some r) (map (\<lambda>j. Some (m j, s j)) [0 ..< n]))
       = map (\<lambda>j. Some ((r ! j - m j) / s j)) [0 ..< n]"
proof (rule nth_equalityI)
  show "length (map transform_cell (zip (map Some r) (map (\<lambda>j. Some (m j, s j)) [0 ..< n])))
      = length (map (\<lambda>j. Some ((r ! j - m j) / s j)) [0 ..< n])"
    using assms by simp
next
  fix i assume "i < length (map transform_cell (zip (map Some r) (map (\<lambda>j. Some (m j, s j)) [0 ..< n])))"
  then have "i < n" using assms by simp
  then show "map transform_cell (zip (map Some r) (map (\<lambda>j. Some (m j, s j)) [0 ..< n])) ! i
      = map (\<lambda>j. Some ((r ! j - m j) / s j)) [0 ..< n] ! i"
    using assms by (simp add: transform_cell_def)
qed

lemma fit_transform_complete:
  assumes "R \<noteq> []" and "\<forall>r \<in> set R. length r = n"
  shows "fit_transform (map (map Num) R) n
       = Inr (map (\<lambda>r. map (\<lambda>j. Some ((r ! j - mean (map (\<lambda>r. r ! j) R))
                                       / own_scale (map (\<lambda>r. r ! j) R))) [0 ..< n]) R,
              map (\<lambda>j. Some (mean (map (\<lambda>r. r ! j) R), own_scale (map (\<lambda>r. r ! j) R))) [0 ..< n])"
proof -
  have notext: "\<not> list_ex (list_ex is_text) (map (map Num) R)"
    by (simp add: list_ex_iff)
  have F: "map (map cell_value) (map (map Num) R) = map (map Some) R"
    by (simp add: comp_def)
  have T: "transform (map (\<lambda>j. Some (mean (map (\<lambda>r. r ! j) R), own_scale (map (\<lambda>r. r ! j) R))) [0 ..< n])
             (map (map Some) R)
         = map (\<lambda>r. map (\<lambda>j. Some ((r ! j - mean (map (\<lambda>r. r ! j) R))
                                       / own_scale (map (\<lambda>r. r ! j) R))) [0 ..< n]) R"
    unfolding transform_def map_map comp_def
    by (rule map_cong [OF refl]) (use assms(2) in \<open>simp add: transform_row\<close>)
  show ?thesis
    unfolding fit_transform_def F Let_def fit_complete [OF assms] T
    using assms(1) notext by simp
qed

lemma app_windows: "length Z > L \<Longrightarrow>
   map (\<lambda>i. py_slice Z i (i + L)) [0 ..< length Z - L] = create_sequences Z L"
  by (simp add: create_sequences_def)

text \<open>
  C3 (as amended). No scaler parameters are persisted or loaded: \<^verbatim>\<open>clean_data\<close> returns the
  scaler it fits to its caller, and \<^verbatim>\<open>preprocess_for_detection\<close> fits a new scaler on every
  request. For a request with the four required columns, numeric values R in them and more
  than ten rows, every value is normalized with the statistics of the request itself: the
  mean of its own column is subtracted and the result divided by the standard deviation of
  that column (by 1 when that is 0); the windows are cut from these rows.
\<close>

theorem inference_refits_scaler:
  assumes "set expected_features \<subseteq> set (columns df)"
    and "records (select_columns expected_features (strip_ts_label df)) = map (map Num) R"
    and "length R > 10"
  shows "preprocess_for_detection (Inr df)
       = Inr (create_sequences
                (map (\<lambda>r. map (\<lambda>j. Some ((r ! j - mean (map (\<lambda>r. r ! j) R))
                                          / (if std (map (\<lambda>r. r ! j) R) = 0 then 1
                                             else std (map (\<lambda>r. r ! j) R))))
                              [0 ..< 4]) R) 10,
              df, expected_features)"
proof -
  have len4: "length expected_features = 4" by (simp add: expected_features_def)
  have nomiss: "filter (\<lambda>f. f \<notin> set (columns (strip_ts_label df))) expected_features = []"
    using assms(1) by (auto simp: filter_empty_conv expected_not_stripped)
  have ne: "R \<noteq> []" using assms(3) by auto
  have rows4: "\<forall>r \<in> set R. length r = 4"
  proof
    fix r assume "r \<in> set R"
    then have "map Num r \<in> set (records (select_columns expected_features (strip_ts_label df)))"
      unfolding assms(2) by simp
    then obtain ra where
      eq: "map Num r = map (cell_at (columns (strip_ts_label df)) ra) expected_features"
      by (auto simp: select_columns_def)
    from arg_cong [OF eq, of length] show "length r = 4" by (simp add: len4)
  qed
  let ?Z = "map (\<lambda>r. map (\<lambda>j. Some ((r ! j - mean (map (\<lambda>r. r ! j) R))
                                       / own_scale (map (\<lambda>r. r ! j) R))) [0 ..< 4]) R"
  have ft: "fit_transform (records (select_columns expected_features (strip_ts_label df)))
              (length expected_features)
          = Inr (?Z, map (\<lambda>j. Some (mean (map (\<lambda>r. r ! j) R), own_scale (map (\<lambda>r. r ! j) R))) [0 ..< 4])"
    unfolding assms(2) len4 by (rule fit_transform_complete [OF ne rows4])
  have lz: "length ?Z > 10" using assms(3) by simp
  have "preprocess_for_detection (Inr df) = Inr (create_sequences ?Z 10, df, expected_features)"
    using lz app_windows [OF lz]
    by (simp add: preprocess_for_detection_def Let_def nomiss ft)
  then show ?thesis unfolding own_scale_def .
qed

lemma mean_request: "mean [13, 13, 7, 7, 12, 8, 10, 10, 10, 10, 10] = 10"
  by (simp add: mean_def)

lemma std_request: "std [13, 13, 7, 7, 12, 8, 10, 10, 10, 10, 10] = 2"
proof -
  have "mean (map (\<lambda>x. (x - 10)\<^sup>2) [13, 13, 7, 7, 12, 8, 10, 10, 10, 10, 10 :: real]) = 2\<^sup>2"
    by (simp add: mean_def)
  then show ?thesis
    unfolding std_def mean_request by (simp only: real_sqrt_abs abs_numeral)
qed

theorem inference_refits_scaler_witness:
  "preprocess_for_detection
     (Inr \<lparr>columns = [''orig_pkts'', ''resp_pkts'', ''orig_bytes'', ''resp_bytes''],
           records =
            [[Num 13, Num 13, Num 13, Num 13], [Num 13, Num 13, Num 13, Num 13],
             [Num 7, Num 7, Num 7, Num 7], [Num 7, Num 7, Num 7, Num 7],
             [Num 12, Num 12, Num 12, Num 12], [Num 8, Num 8, Num 8, Num 8],
             [Num 10, Num 10, Num 10, Num 10], [Num 10, Num 10, Num 10, Num 10],
             [Num 10, Num 10, Num 10, Num 10], [Num 10, Num 10, Num 10, Num 10],
             [Num 10, Num 10, Num 10, Num 10]]\<rparr>)
   = Inr ([[[Some (3 / 2), Some (3 / 2), Some (3 / 2), Some (3 / 2)],
            [Some (3 / 2), Some (3 / 2), Some (3 / 2), Some (3 / 2)],
            [Some (- (3 / 2)), Some (- (3 / 2)), Some (- (3 / 2)), Some (- (3 / 2))],
            [Some (- (3 / 2)), Some (- (3 / 2)), Some (- (3 / 2)), Some (- (3 / 2))],
            [Some 1, Some 1, Some 1, Some 1], [Some (- 1), Some (- 1), Some (- 1), Some (- 1)],
            [Some 0, Some 0, Some 0, Some 0], [Some 0, Some 0, Some 0, Some 0],
            [Some 0, Some 0, Some 0, Some 0], [Some 0, Some 0, Some 0, Some 0]]],
          \<lparr>columns = [''orig_pkts'', ''resp_pkts'', ''orig_bytes'', ''resp_bytes''],
           records =
            [[Num 13, Num 13, Num 13, Num 13], [Num 13, Num 13, Num 13, Num 13],
             [Num 7, Num 7, Num 7, Num 7], [Num 7, Num 7, Num 7, Num 7],
             [Num 12, Num 12, Num 12, Num 12], [Num 8, Num 8, Num 8, Num 8],
             [Num 10, Num 10, Num 10, Num 10], [Num 10, Num 10, Num 10, Num 10],
             [Num 10, Num 10, Num 10, Num 10], [Num 10, Num 10, Num 10, Num 10],
             [Num 10, Num 10, Num 10, Num 10]]\<rparr>,
          expected_features)"
  (is "preprocess_for_detection (Inr ?df) = _")
proof -
  let ?R = "[[13, 13, 13, 13], [13, 13, 13, 13], [7, 7, 7, 7], [7, 7, 7, 7], [12, 12, 12, 12],
             [8, 8, 8, 8], [10, 10, 10, 10], [10, 10, 10, 10], [10, 10, 10, 10],
             [10, 10, 10, 10], [10, 10, 10, 10]] :: real list list"
  have h1: "set expected_features \<subseteq> set (columns ?df)"
    by (simp add: expected_features_def)
  have h2: "records (select_columns expected_features (strip_ts_label ?df)) = map (map Num) ?R"
    by (simp add: select_columns_def strip_ts_label_def expected_features_def cell_at_def)
  have h3: "length ?R > 10" by simp
  show ?thesis
    unfolding inference_refits_scaler [OF h1 h2 h3]
    by (simp add: create_sequences_def py_slice_def upt_rec mean_request std_request)
qed

text \<open>
  A request of eleven rows whose four features all take the values 13, 13, 7, 7, 12, 8, 10,
  10, 10, 10, 10 (mean 10, standard deviation 2), evaluated directly.
\<close>

lemma request_result:
  "preprocess_for_detection
     (Inr \<lparr>columns = [''orig_pkts'', ''resp_pkts'', ''orig_bytes'', ''resp_bytes''],
           records =
            [[Num 13, Num 13, Num 13, Num 13], [Num 13, Num 13, Num 13, Num 13],
             [Num 7, Num 7, Num 7, Num 7], [Num 7, Num 7, Num 7, Num 7],
             [Num 12, Num 12, Num 12, Num 12], [Num 8, Num 8, Num 8, Num 8],
             [Num 10, Num 10, Num 10, Num 10], [Num 10, Num 10, Num 10, Num 10],
             [Num 10, Num 10, Num 10, Num 10], [Num 10, Num 10, Num 10, Num 10],
             [Num 10, Num 10, Num 10, Num 10]]\<rparr>)
   = Inr ([[[Some (3 / 2), Some (3 / 2), Some (3 / 2), Some (3 / 2)],
            [Some (3 / 2), Some (3 / 2), Some (3 / 2), Some (3 / 2)],
            [Some (- (3 / 2)), Some (- (3 / 2)), Some (- (3 / 2)), Some (- (3 / 2))],
            [Some (- (3 / 2)), Some (- (3 / 2)), Some (- (3 / 2)), Some (- (3 / 2))],
            [Some 1, Some 1, Some 1, Some 1], [Some (- 1), Some (- 1), Some (- 1), Some (- 1)],
            [Some 0, Some 0, Some 0, Some 0], [Some 0, Some 0, Some 0, Some 0],
            [Some 0, Some 0, Some 0, Some 0], [Some 0, Some 0, Some 0, Some 0]]],
          \<lparr>columns = [''orig_pkts'', ''resp_pkts'', ''orig_bytes'', ''resp_bytes''],
           records =
            [[Num 13, Num 13, Num 13, Num 13], [Num 13, Num 13, Num 13, Num 13],
             [Num 7, Num 7, Num 7, Num 7], [Num 7, Num 7, Num 7, Num 7],
             [Num 12, Num 12, Num 12, Num 12], [Num 8, Num 8, Num 8, Num 8],
             [Num 10, Num 10, Num 10, Num 10], [Num 10, Num 10, Num 10, Num 10],
             [Num 10, Num 10, Num 10, Num 10], [Num 10, Num 10, Num 10, Num 10],
             [Num 10, Num 10, Num 10, Num 10]]\<rparr>,
          expected_features)"
  by (simp add: preprocess_for_detection_def strip_ts_label_def select_columns_def cell_at_def
        expected_features_def fit_transform_def fit_def own_scale_def column_values_def
        List.map_filter_def mean_request std_request transform_def transform_cell_def
        py_slice_def Let_def upt_rec)

text \<open>
  C3 as stated fails. A training table with the feature values 1 and 3 gives the scaler
  (mean 2, scale 1) for each feature. The request above is normalized by its own
  statistics, to 3/2, 3/2, -3/2, ...; the parameters fit in training would give 11, 11, 5, ...
\<close>

theorem inference_ignores_training_scaler:
  "clean_data \<lparr>columns = [''orig_pkts'', ''resp_pkts'', ''orig_bytes'', ''resp_bytes''],
               records = [[Num 1, Num 1, Num 1, Num 1], [Num 3, Num 3, Num 3, Num 3]]\<rparr>
              expected_features
     = Inr (\<lparr>columns = [''orig_pkts'', ''resp_pkts'', ''orig_bytes'', ''resp_bytes''],
             records = [[Num (- 1), Num (- 1), Num (- 1), Num (- 1)], [Num 1, Num 1, Num 1, Num 1]]\<rparr>,
            Some [Some (2, 1), Some (2, 1), Some (2, 1), Some (2, 1)], [])
   \<and> create_sequences
       (transform [Some (2, 1), Some (2, 1), Some (2, 1), Some (2, 1)]
          (map (map cell_value)
             (records \<lparr>columns = [''orig_pkts'', ''resp_pkts'', ''orig_bytes'', ''resp_bytes''],
              records =
               [[Num 13, Num 13, Num 13, Num 13], [Num 13, Num 13, Num 13, Num 13],
                [Num 7, Num 7, Num 7, Num 7], [Num 7, Num 7, Num 7, Num 7],
                [Num 12, Num 12, Num 12, Num 12], [Num 8, Num 8, Num 8, Num 8],
                [Num 10, Num 10, Num 10, Num 10], [Num 10, Num 10, Num 10, Num 10],
                [Num 10, Num 10, Num 10, Num 10], [Num 10, Num 10, Num 10, Num 10],
                [Num 10, Num 10, Num 10, Num 10]]\<rparr>))) 10
     = [[[Some 11, Some 11, Some 11, Some 11], [Some 11, Some 11, Some 11, Some 11],
            [Some 5, Some 5, Some 5, Some 5], [Some 5, Some 5, Some 5, Some 5],
            [Some 10, Some 10, Some 10, Some 10], [Some 6, Some 6, Some 6, Some 6],
            [Some 8, Some 8, Some 8, Some 8], [Some 8, Some 8, Some 8, Some 8],
            [Some 8, Some 8, Some 8, Some 8], [Some 8, Some 8, Some 8, Some 8]]]
   \<and> preprocess_for_detection
       (Inr \<lparr>columns = [''orig_pkts'', ''resp_pkts'', ''orig_bytes'', ''resp_bytes''],
           records =
            [[Num 13, Num 13, Num 13, Num 13], [Num 13, Num 13, Num 13, Num 13],
             [Num 7, Num 7, Num 7, Num 7], [Num 7, Num 7, Num 7, Num 7],
             [Num 12, Num 12, Num 12, Num 12], [Num 8, Num 8, Num 8, Num 8],
             [Num 10, Num 10, Num 10, Num 10], [Num 10, Num 10, Num 10, Num 10],
             [Num 10, Num 10, Num 10, Num 10], [Num 10, Num 10, Num 10, Num 10],
             [Num 10, Num 10, Num 10, Num 10]]\<rparr>)
     \<noteq> Inr (create_sequences
              (transform [Some (2, 1), Some (2, 1), Some (2, 1), Some (2, 1)]
                 (map (map cell_value)
                    (records \<lparr>columns = [''orig_pkts'', ''resp_pkts'', ''orig_bytes'', ''resp_bytes''],
                     records =
                      [[Num 13, Num 13, Num 13, Num 13], [Num 13, Num 13, Num 13, Num 13],
                       [Num 7, Num 7, Num 7, Num 7], [Num 7, Num 7, Num 7, Num 7],
                       [Num 12, Num 12, Num 12, Num 12], [Num 8, Num 8, Num 8, Num 8],
                       [Num 10, Num 10, Num 10, Num 10], [Num 10, Num 10, Num 10, Num 10],
                       [Num 10, Num 10, Num 10, Num 10], [Num 10, Num 10, Num 10, Num 10],
                       [Num 10, Num 10, Num 10, Num 10]]\<rparr>))) 10,
            \<lparr>columns = [''orig_pkts'', ''resp_pkts'', ''orig_bytes'', ''resp_bytes''],
             records =
              [[Num 13, Num 13, Num 13, Num 13], [Num 13, Num 13, Num 13, Num 13],
               [Num 7, Num 7, Num 7, Num 7], [Num 7, Num 7, Num 7, Num 7],
               [Num 12, Num 12, Num 12, Num 12], [Num 8, Num 8, Num 8, Num 8],
               [Num 10, Num 10, Num 10, Num 10], [Num 10, Num 10, Num 10, Num 10],
               [Num 10, Num 10, Num 10, Num 10], [Num 10, Num 10, Num 10, Num 10],
               [Num 10, Num 10, Num 10, Num 10]]\<rparr>,
            expected_features)"
  (is "?A \<and> ?B \<and> ?C")
proof (intro conjI)
  show ?A
    by (simp add: clean_data_def dropna_def select_columns_def cell_at_def expected_features_def
        fit_transform_def fit_def own_scale_def column_values_def List.map_filter_def
        mean_examples std_examples transform_def transform_cell_def assign_columns_def Let_def upt_rec)
  show B: ?B
    by (simp add: create_sequences_def py_slice_def transform_def transform_cell_def upt_rec)
  show ?C
    unfolding B request_result by simp
qed

text \<open>
  The scaler that \<^verbatim>\<open>clean_data\<close> returns is the one fit on the rows without missing values
  of the table it is given, over the requested columns that are present.
\<close>

lemma clean_data_scaler:
  assumes "clean_data df numeric_cols = Inr (df_clean, Some sc, enc)"
  shows "sc = fit (map (map cell_value)
                     (records (select_columns (filter (\<lambda>c. c \<in> set (columns df)) numeric_cols)
                                              (dropna df))))
                  (length (filter (\<lambda>c. c \<in> set (columns df)) numeric_cols))"
proof -
  have c: "columns (dropna df) = columns df" by (simp add: dropna_def)
  show ?thesis
    using assms unfolding clean_data_def Let_def c fit_transform_def
    by (auto split: if_splits sum.splits)
qed

text \<open>
  \<^verbatim>\<open>preprocess_for_detection\<close> repeats the loop of \<^verbatim>\<open>create_sequences\<close> with the length 10
  behind a guard of its own: a request that normalizes to at most ten rows is reported as
  the ValueError "File must have more than 10 rows for sequence analysis"; a longer one
  gets the windows of \<^verbatim>\<open>create_sequences\<close>.
\<close>

lemma preprocess_for_detection_windows:
  assumes "set expected_features \<subseteq> set (columns df)"
    and "fit_transform (records (select_columns expected_features (strip_ts_label df))) 4
           = Inr (df_normalized, sc)"
  shows "preprocess_for_detection (Inr df) =
           (if length df_normalized \<le> 10
            then Inl (ValueError ''File must have more than 10 rows for sequence analysis'')
            else Inr (create_sequences df_normalized 10, df, expected_features))"
proof -
  have len4: "length expected_features = 4" by (simp add: expected_features_def)
  have nomiss: "filter (\<lambda>f. f \<notin> set (columns (strip_ts_label df))) expected_features = []"
    using assms(1) by (auto simp: filter_empty_conv expected_not_stripped)
  show ?thesis
    using assms(2)
    by (simp add: preprocess_for_detection_def Let_def nomiss len4 create_sequences_def)
qed

subsection \<open>Detection\<close>

lemma failure_fields:
  "error (failure msg) = Some msg" "anomalies_count (failure msg) = 0"
  "details (failure msg) = []" "total_samples (failure msg) = 0"
  "threshold_applied (failure msg) = None" "percentage (failure msg) = None"
  by (simp_all add: failure_def)

lemma try_result_shape:
  assumes "detect_anomalies_try files st csv = (Inr r, st1)"
  shows "(\<exists>msg. r = failure msg)
       \<or> (error r = None
          \<and> (\<exists>m thr seqs df fs recon errs.
                fst (load_ml_model files st) = Inr (Some m, thr)
              \<and> preprocess_for_detection csv = Inr (seqs, df, fs)
              \<and> m seqs = Inr recon
              \<and> reconstruction_errors seqs recon = Inr errs
              \<and> anomalies_count r = length (anomaly_indices errs thr)
              \<and> total_samples r = length seqs
              \<and> length (details r) = min 100 (anomalies_count r)))"
  using assms
  by (auto simp: detect_anomalies_try_def Let_def
           split: prod.splits sum.splits option.splits)

text \<open>
  C10. \<^verbatim>\<open>detect_anomalies\<close> returns a result dictionary on every input. Whenever the
  dictionary holds an error message, its anomaly count is 0, its details are empty and its
  sample count is 0, with no threshold and no percentage beside them. A failure to load the
  model or the threshold, a missing model, a failure of preprocessing (also of reading the
  file), and a failure of the reconstruction or of the error computation each give such a
  dictionary, with the message of the failure. A dictionary without an error message is
  returned only when every stage has succeeded, and then reports the detection on all
  windows.
\<close>

theorem detect_anomalies_total:
  fixes files st csv
  defines "r \<equiv> fst (detect_anomalies files st csv)"
  shows "(error r \<noteq> None \<longrightarrow>
            anomalies_count r = 0 \<and> details r = [] \<and> total_samples r = 0
          \<and> threshold_applied r = None \<and> percentage r = None)
       \<and> (\<forall>e. fst (load_ml_model files st) = Inl e \<longrightarrow> r = failure (str_exception e))
       \<and> (\<forall>thr. fst (load_ml_model files st) = Inr (None, thr)
              \<longrightarrow> r = failure ''Model not loaded. Please train the model first.'')
       \<and> (\<forall>m thr e. fst (load_ml_model files st) = Inr (Some m, thr)
                  \<and> preprocess_for_detection csv = Inl e
              \<longrightarrow> r = failure (str_exception e))
       \<and> (\<forall>m thr seqs df fs e. fst (load_ml_model files st) = Inr (Some m, thr)
                  \<and> preprocess_for_detection csv = Inr (seqs, df, fs)
                  \<and> (m seqs = Inl e
                     \<or> (\<exists>recon. m seqs = Inr recon \<and> reconstruction_errors seqs recon = Inl e))
              \<longrightarrow> r = failure (str_exception e))
       \<and> (error r = None \<longrightarrow>
            (\<exists>m thr seqs df fs recon errs.
                fst (load_ml_model files st) = Inr (Some m, thr)
              \<and> preprocess_for_detection csv = Inr (seqs, df, fs)
              \<and> m seqs = Inr recon
              \<and> reconstruction_errors seqs recon = Inr errs
              \<and> anomalies_count r = length (anomaly_indices errs thr)
              \<and> total_samples r = length seqs
              \<and> length (details r) = min 100 (anomalies_count r)))"
proof (intro conjI)
  obtain out st1 where t: "detect_anomalies_try files st csv = (out, st1)"
    by (cases "detect_anomalies_try files st csv")
  have r: "r = (case out of Inl e \<Rightarrow> failure (str_exception e) | Inr res \<Rightarrow> res)"
    by (simp add: r_def detect_anomalies_def t split: sum.splits)
  show "error r \<noteq> None \<longrightarrow>
            anomalies_count r = 0 \<and> details r = [] \<and> total_samples r = 0
          \<and> threshold_applied r = None \<and> percentage r = None"
  proof (cases out)
    case (Inl e)
    then show ?thesis by (simp add: r failure_fields)
  next
    case (Inr res)
    with try_result_shape [of files st csv res st1] t show ?thesis
      by (auto simp: r failure_fields)
  qed
  show "error r = None \<longrightarrow>
            (\<exists>m thr seqs df fs recon errs.
                fst (load_ml_model files st) = Inr (Some m, thr)
              \<and> preprocess_for_detection csv = Inr (seqs, df, fs)
              \<and> m seqs = Inr recon
              \<and> reconstruction_errors seqs recon = Inr errs
              \<and> anomalies_count r = length (anomaly_indices errs thr)
              \<and> total_samples r = length seqs
              \<and> length (details r) = min 100 (anomalies_count r))"
  proof (cases out)
    case (Inl e)
    then show ?thesis by (simp add: r failure_fields)
  next
    case (Inr res)
    with try_result_shape [of files st csv res st1] t show ?thesis
      by (auto simp: r failure_fields)
  qed
  show "\<forall>e. fst (load_ml_model files st) = Inl e \<longrightarrow> r = failure (str_exception e)"
    by (auto simp: r_def detect_anomalies_def detect_anomalies_try_def split: prod.splits)
  show "\<forall>thr. fst (load_ml_model files st) = Inr (None, thr)
              \<longrightarrow> r = failure ''Model not loaded. Please train the model first.''"
    by (auto simp: r_def detect_anomalies_def detect_anomalies_try_def split: prod.splits)
  show "\<forall>m thr e. fst (load_ml_model files st) = Inr (Some m, thr)
                  \<and> preprocess_for_detection csv = Inl e
              \<longrightarrow> r = failure (str_exception e)"
    by (auto simp: r_def detect_anomalies_def detect_anomalies_try_def split: prod.splits)
  show "\<forall>m thr seqs df fs e. fst (load_ml_model files st) = Inr (Some m, thr)
                  \<and> preprocess_for_detection csv = Inr (seqs, df, fs)
                  \<and> (m seqs = Inl e
                     \<or> (\<exists>recon. m seqs = Inr recon \<and> reconstruction_errors seqs recon = Inl e))
              \<longrightarrow> r = failure (str_exception e)"
    by (auto simp: r_def detect_anomalies_def detect_anomalies_try_def split: prod.splits)
qed

text \<open>
  The same request, a model that reconstructs every window as zeros, and no threshold
  file: the window's error is 11/10 against the default threshold 0.12.
\<close>

lemma detect_anomalies_example:
  "fst (detect_anomalies
     \<lparr>lstm_model_keras = Content (\<lambda>w. Inr (map (map (map (\<lambda>x. Some 0))) w)),
      threshold_optimized_txt = Missing, threshold_txt = Missing\<rparr>
     \<lparr>MODEL = None, THRESHOLD = None\<rparr>
     (Inr \<lparr>columns = [''orig_pkts'', ''resp_pkts'', ''orig_bytes'', ''resp_bytes''],
           records =
            [[Num 13, Num 13, Num 13, Num 13], [Num 13, Num 13, Num 13, Num 13],
             [Num 7, Num 7, Num 7, Num 7], [Num 7, Num 7, Num 7, Num 7],
             [Num 12, Num 12, Num 12, Num 12], [Num 8, Num 8, Num 8, Num 8],
             [Num 10, Num 10, Num 10, Num 10], [Num 10, Num 10, Num 10, Num 10],
             [Num 10, Num 10, Num 10, Num 10], [Num 10, Num 10, Num 10, Num 10],
             [Num 10, Num 10, Num 10, Num 10]]\<rparr>))
   = \<lparr>error = None, anomalies_count = 1,
      details = [\<lparr>sequence_id = 0, row_range = (0, 10), error_score = Some (11 / 10),
                  threshold_used = 12 / 100, severity = ''High'',
                  sample_data = Some [(''orig_pkts'', Num 13), (''resp_pkts'', Num 13),
                                      (''orig_bytes'', Num 13), (''resp_bytes'', Num 13)]\<rparr>],
      total_samples = 1, threshold_applied = Some (12 / 100), percentage = Some 100\<rparr>"
  unfolding detect_anomalies_def detect_anomalies_try_def request_result
  by (simp add: load_ml_model_def reconstruction_errors_def same_shape_def window_error_def
      square_diff_def mean_def anomaly_indices_def anomaly_flags_def make_detail_def Let_def
      power2_eq_square)

theorem detect_anomalies_total_witness:
  "fst (detect_anomalies
     \<lparr>lstm_model_keras = Content Inr, threshold_optimized_txt = Missing,
      threshold_txt = Content (3 / 10)\<rparr>
     \<lparr>MODEL = None, THRESHOLD = None\<rparr>
     (Inr \<lparr>columns = [''orig_pkts'', ''resp_pkts'', ''orig_bytes''], records = [[Num 1, Num 2, Num 3]]\<rparr>))
   = failure (''Missing required features: ['' @ [CHR 0x27] @ ''resp_bytes'' @ [CHR 0x27] @ '']'')
   \<and> fst (detect_anomalies
     \<lparr>lstm_model_keras = Missing, threshold_optimized_txt = Missing, threshold_txt = Missing\<rparr>
     \<lparr>MODEL = None, THRESHOLD = None\<rparr>
     (Inr \<lparr>columns = [''orig_pkts'', ''resp_pkts'', ''orig_bytes''], records = [[Num 1, Num 2, Num 3]]\<rparr>))
   = failure ''Model not loaded. Please train the model first.''"
proof
  let ?files = "\<lparr>lstm_model_keras = Content Inr, threshold_optimized_txt = Missing,
      threshold_txt = Content (3 / 10)\<rparr>"
  let ?nofiles = "\<lparr>lstm_model_keras = (Missing :: keras_model stored),
      threshold_optimized_txt = Missing, threshold_txt = Missing\<rparr>"
  let ?st = "\<lparr>MODEL = None, THRESHOLD = None\<rparr>"
  let ?csv = "Inr \<lparr>columns = [''orig_pkts'', ''resp_pkts'', ''orig_bytes''], records = [[Num 1, Num 2, Num 3]]\<rparr>
              :: py_exception + frame"
  have load: "fst (load_ml_model ?files ?st) = Inr (Some Inr, 3 / 10)"
    by (simp add: load_ml_model_def)
  have pre: "preprocess_for_detection ?csv
      = Inl (ValueError (''Missing required features: ['' @ [CHR 0x27] @ ''resp_bytes'' @ [CHR 0x27] @ '']''))"
    by (simp add: preprocess_for_detection_def strip_ts_label_def expected_features_def
        py_repr_list_def Let_def)
  from detect_anomalies_total [of ?files ?st ?csv] load pre
  have "fst (detect_anomalies ?files ?st ?csv)
      = failure (str_exception (ValueError (''Missing required features: ['' @ [CHR 0x27] @ ''resp_bytes'' @ [CHR 0x27] @ '']'')))"
    by blast
  then show "fst (detect_anomalies ?files ?st ?csv)
      = failure (''Missing required features: ['' @ [CHR 0x27] @ ''resp_bytes'' @ [CHR 0x27] @ '']'')"
    by simp
  have noload: "fst (load_ml_model ?nofiles ?st) = Inr (None, 12 / 100)"
    by (simp add: load_ml_model_def)
  from detect_anomalies_total [of ?nofiles ?st ?csv] noload
  show "fst (detect_anomalies ?nofiles ?st ?csv)
      = failure ''Model not loaded. Please train the model first.''"
    by blast
qed

end
